theory Spec2Isabelle
  imports Main "HOL-Library.Sublist" "HOL-Library.AList"
begin

section \<open>Python strings\<close>

text \<open>
  A Python \<open>str\<close> is a sequence of Unicode code points and \<open>len\<close> counts code points.
  The messages of the agent are Chinese, so a string is modelled as the list of its code
  points; \<open>ascii\<close> embeds an ASCII literal.
\<close>

type_synonym pystr = "nat list"

definition ascii :: "string \<Rightarrow> pystr" where
  "ascii s = map of_char s"

text \<open>\<open>str.isspace\<close> of one code point: the white-space table of CPython.\<close>

definition py_isspace :: "nat \<Rightarrow> bool" where
  "py_isspace c \<longleftrightarrow>
     (9 \<le> c \<and> c \<le> 13) \<or> (28 \<le> c \<and> c \<le> 32) \<or> c = 133 \<or> c = 160 \<or> c = 5760 \<or>
     (8192 \<le> c \<and> c \<le> 8202) \<or> c = 8232 \<or> c = 8233 \<or> c = 8239 \<or> c = 8287 \<or> c = 12288"

text \<open>\<open>s.strip()\<close>: white space removed at both ends.\<close>

definition py_strip :: "pystr \<Rightarrow> pystr" where
  "py_strip s = rev (dropWhile py_isspace (rev (dropWhile py_isspace s)))"

text \<open>\<open>s.startswith(p)\<close> and \<open>p in s\<close> on strings.\<close>

definition py_startswith :: "pystr \<Rightarrow> pystr \<Rightarrow> bool" where
  "py_startswith s p = prefix p s"

definition py_contains :: "pystr \<Rightarrow> pystr \<Rightarrow> bool" where
  "py_contains p s = sublist p s"

text \<open>\<open>s.split('\n')\<close>: never the empty list.\<close>

fun py_split_nl :: "pystr \<Rightarrow> pystr list" where
  "py_split_nl [] = [[]]"
| "py_split_nl (c # cs) =
     (if c = 10 then [] # py_split_nl cs
      else (case py_split_nl cs of [] \<Rightarrow> [[c]] | l # ls \<Rightarrow> (c # l) # ls))"

text \<open>\<open>s[:n]\<close>: a negative bound counts from the end.\<close>

definition py_slice_to :: "int \<Rightarrow> 'a list \<Rightarrow> 'a list" where
  "py_slice_to n s = (if 0 \<le> n then take (nat n) s else take (length s - nat (- n)) s)"

text \<open>\<open>str(n)\<close> of an integer, in decimal.\<close>

fun py_str_nat :: "nat \<Rightarrow> pystr" where
  "py_str_nat n = (if n < 10 then [48 + n] else py_str_nat (n div 10) @ [48 + n mod 10])"

definition py_str_int :: "int \<Rightarrow> pystr" where
  "py_str_int i = (if i < 0 then 45 # py_str_nat (nat (- i)) else py_str_nat (nat i))"

text \<open>
  \<open>s.encode()\<close> and writing to a file opened with \<open>encoding='utf-8'\<close>: UTF-8, which
  raises \<open>UnicodeEncodeError\<close> on a surrogate code point. A \<open>str\<close> holds code
  points below \<open>0x110000\<close> only.
\<close>

definition is_surrogate :: "nat \<Rightarrow> bool" where
  "is_surrogate c \<longleftrightarrow> 0xD800 \<le> c \<and> c \<le> 0xDFFF"

definition utf8_char :: "nat \<Rightarrow> nat list" where
  "utf8_char c =
     (if c < 0x80 then [c]
      else if c < 0x800 then [0xC0 + c div 64, 0x80 + c mod 64]
      else if c < 0x10000 then [0xE0 + c div 4096, 0x80 + c div 64 mod 64, 0x80 + c mod 64]
      else [0xF0 + c div 262144, 0x80 + c div 4096 mod 64, 0x80 + c div 64 mod 64,
            0x80 + c mod 64])"

text \<open>A byte string is a list of \<open>char\<close>: the values 0 to 255.\<close>

type_synonym bytes = "char list"

definition utf8_encode :: "pystr \<Rightarrow> bytes option" where
  "utf8_encode s =
     (if list_ex is_surrogate s then None else Some (map char_of (concat (map utf8_char s))))"






definition hex_digit :: "nat \<Rightarrow> nat" where
  "hex_digit d = (if d < 10 then 48 + d else 87 + d)"

text \<open>\<open>str(e)\<close> of the \<open>UnicodeEncodeError\<close> that encoding \<open>s\<close> raises.\<close>

definition encode_error_message :: "pystr \<Rightarrow> pystr" where
  "encode_error_message s =
     (let start = length (takeWhile (\<lambda>c. \<not> is_surrogate c) s);
          bad = takeWhile is_surrogate (drop start s);
          c = hd bad
      in [39] @ ascii ''utf-8'' @ [39] @ ascii '' codec can'' @ [39] @ ascii ''t encode '' @
         (if length bad = 1
          then ascii ''character '' @ [39, 92] @ ascii ''u'' @
               [hex_digit (c div 4096), hex_digit (c div 256 mod 16), hex_digit (c div 16 mod 16),
                hex_digit (c mod 16)] @ [39] @ ascii '' in position '' @ py_str_nat start
          else ascii ''characters in position '' @ py_str_nat start @ ascii ''-'' @
               py_str_nat (start + length bad - 1)) @
         ascii '': surrogates not allowed'')"

section \<open>The host: child processes and the file system\<close>

text \<open>
  What a child process does is not decided by the agent: the host is a parameter. A
  spawn is a shell command line (\<open>Popen(..., shell=True)\<close>) or an argument vector
  (\<open>subprocess.run([...])\<close>), with the working directory and environment handed to it
  (\<open>None\<close>: inherited). A child exits with its two streams and a code, or is still
  running when its caller stops waiting (a caller that waits without a limit then never
  returns), or cannot be started. While it runs it may change the file system. Every
  spawn is recorded in \<open>spawned\<close>.
\<close>

datatype command = Shell pystr | Argv "pystr list"

datatype spawn = Spawn command "pystr option" "(pystr \<rightharpoonup> pystr) option"

datatype proc_outcome =
    Exited pystr pystr int
  | TimedOut
  | SpawnFailed pystr

record file_node =
  content :: pystr
  mode :: nat

type_synonym fs = "pystr \<rightharpoonup> file_node"

datatype os_call = Open pystr | Write pystr | Chmod pystr | Remove pystr

record world =
  child :: "spawn \<Rightarrow> fs \<Rightarrow> proc_outcome \<times> fs"
  fails :: "os_call \<Rightarrow> pystr option"
  environ :: "pystr \<rightharpoonup> pystr"
  files :: fs
  spawned :: "spawn list"

definition popen :: "world \<Rightarrow> spawn \<Rightarrow> proc_outcome \<times> world" where
  "popen w sp =
     (let (res, fs') = child w sp (files w)
      in (res, w\<lparr>files := fs', spawned := spawned w @ [sp]\<rparr>))"

text \<open>
  File operations. A call fails when the host says so (\<open>fails\<close> gives the text of the
  \<open>OSError\<close>). \<open>open(path, 'w')\<close> creates or empties the file before anything is
  written; a new file gets mode \<open>0o644\<close>.
\<close>

definition os_path_exists :: "world \<Rightarrow> pystr \<Rightarrow> bool" where
  "os_path_exists w path \<longleftrightarrow> path \<in> dom (files w)"

definition write_text_file :: "world \<Rightarrow> pystr \<Rightarrow> pystr \<Rightarrow> (pystr + unit) \<times> world" where
  "write_text_file w path text =
     (case fails w (Open path) of
        Some msg \<Rightarrow> (Inl msg, w)
      | None \<Rightarrow>
          (let m = (case files w path of None \<Rightarrow> 420 | Some f \<Rightarrow> mode f);
               w1 = w\<lparr>files := (files w)(path \<mapsto> \<lparr>content = [], mode = m\<rparr>)\<rparr>
           in if utf8_encode text = None then (Inl (encode_error_message text), w1)
              else (case fails w (Write path) of
                      Some msg \<Rightarrow> (Inl msg, w1)
                    | None \<Rightarrow>
                        (Inr (), w\<lparr>files := (files w)(path \<mapsto> \<lparr>content = text, mode = m\<rparr>)\<rparr>))))"

definition os_chmod :: "world \<Rightarrow> pystr \<Rightarrow> nat \<Rightarrow> (pystr + unit) \<times> world" where
  "os_chmod w path m =
     (case fails w (Chmod path) of
        Some msg \<Rightarrow> (Inl msg, w)
      | None \<Rightarrow>
          (case files w path of
             None \<Rightarrow> (Inl (ascii ''[Errno 2] No such file or directory: '' @ [39] @ path @ [39]), w)
           | Some f \<Rightarrow> (Inr (), w\<lparr>files := (files w)(path \<mapsto> f\<lparr>mode := m\<rparr>)\<rparr>)))"

definition os_remove :: "world \<Rightarrow> pystr \<Rightarrow> (pystr + unit) \<times> world" where
  "os_remove w path =
     (case fails w (Remove path) of
        Some msg \<Rightarrow> (Inl msg, w)
      | None \<Rightarrow>
          (if path \<in> dom (files w) then (Inr (), w\<lparr>files := (files w)(path := None)\<rparr>)
           else (Inl (ascii ''[Errno 2] No such file or directory: '' @ [39] @ path @ [39]), w)))"

text \<open>\<open>os.path.join(a, b)\<close> for a relative \<open>b\<close>, with the POSIX separator.\<close>

definition os_path_join :: "pystr \<Rightarrow> pystr \<Rightarrow> pystr" where
  "os_path_join a b = (if a = [] \<or> last a = 47 then a @ b else a @ [47] @ b)"

section \<open>executor.py\<close>

record CommandExecutor =
  platform :: pystr
  timeout :: int
  max_output_size :: int

record exec_result =
  success :: bool
  output_text :: pystr
  error :: pystr
  return_code :: int

datatype exec_error = TimeoutExpired | OtherException pystr

definition stdout_marker :: pystr where
  "stdout_marker = [0xa, 0x5b, 0x8f93, 0x51fa, 0x88ab, 0x622a, 0x65ad, 0x2e, 0x2e, 0x2e, 0x5d]"

definition stderr_marker :: pystr where
  "stderr_marker =
     [0xa, 0x5b, 0x9519, 0x8bef, 0x8f93, 0x51fa, 0x88ab, 0x622a, 0x65ad, 0x2e, 0x2e, 0x2e, 0x5d]"

definition limit_output :: "int \<Rightarrow> pystr \<Rightarrow> pystr \<Rightarrow> pystr" where
  "limit_output m marker s =
     (if int (length s) > m then py_slice_to m s @ marker else s)"

text \<open>
  \<open>_run_command\<close>: the given environment is laid over a copy of \<open>os.environ\<close>, the
  command goes to \<open>Popen(command, shell=True, cwd=working_dir, env=cmd_env)\<close>, and
  \<open>communicate\<close> waits under the timeout.
\<close>

definition run_command ::
  "'a CommandExecutor_scheme \<Rightarrow> world \<Rightarrow> pystr \<Rightarrow> pystr option \<Rightarrow> (pystr \<rightharpoonup> pystr) option \<Rightarrow>
     (exec_error + pystr \<times> pystr \<times> int) \<times> world" where
  "run_command ex w command working_dir env =
     (let cmd_env = (case env of None \<Rightarrow> environ w | Some e \<Rightarrow> environ w ++ e);
          (res, w') = popen w (Spawn (Shell command) working_dir (Some cmd_env))
      in case res of
           SpawnFailed msg \<Rightarrow> (Inl (OtherException msg), w')
         | TimedOut \<Rightarrow> (Inl TimeoutExpired, w')
         | Exited out err rc \<Rightarrow>
             (Inr (limit_output (max_output_size ex) stdout_marker out,
                   limit_output (max_output_size ex) stderr_marker err, rc), w'))"

text \<open>\<open>_prepare_command_with_user\<close>.\<close>

definition prepare_command_with_user ::
  "'a CommandExecutor_scheme \<Rightarrow> pystr \<Rightarrow> pystr \<Rightarrow> pystr" where
  "prepare_command_with_user ex command user =
     (if platform ex = ascii ''linux''
      then ascii ''su - '' @ user @ ascii '' -c '' @ [39] @ command @ [39]
      else if platform ex = ascii ''windows'' then command
      else command)"

definition timeout_message :: "int \<Rightarrow> pystr" where
  "timeout_message t =
     [0x547d, 0x4ee4, 0x6267, 0x884c, 0x8d85, 0x65f6, 0xff08, 0x8d85, 0x8fc7, 0x20]
     @ py_str_int t @ [0x20, 0x79d2, 0xff09]"

text \<open>\<open>execute\<close>: \<open>if user:\<close> holds for a non-empty name.\<close>

definition execute ::
  "'a CommandExecutor_scheme \<Rightarrow> world \<Rightarrow> pystr \<Rightarrow> pystr option \<Rightarrow> pystr option \<Rightarrow>
     (pystr \<rightharpoonup> pystr) option \<Rightarrow> exec_result \<times> world" where
  "execute ex w command user working_dir env =
     (let command' = (case user of
                        None \<Rightarrow> command
                      | Some u \<Rightarrow> if u = [] then command
                                  else prepare_command_with_user ex command u)
      in case run_command ex w command' working_dir env of
           (Inr (out, err, rc), w') \<Rightarrow>
             (\<lparr>success = True, output_text = out, error = err, return_code = rc\<rparr>, w')
         | (Inl TimeoutExpired, w') \<Rightarrow>
             (\<lparr>success = False, output_text = [], error = timeout_message (timeout ex),
               return_code = - 1\<rparr>, w')
         | (Inl (OtherException msg), w') \<Rightarrow>
             (\<lparr>success = False, output_text = [], error = msg, return_code = - 1\<rparr>, w'))"

text \<open>
  \<open>validate_command\<close>. The scan of the dangerous patterns only logs; the warnings are
  returned with the verdict. \<open>str.lower\<close> is Python's Unicode lower-casing, a parameter.
\<close>

definition dangerous_patterns :: "pystr list" where
  "dangerous_patterns = [ascii ''rm -rf /'', ascii ''mkfs'', ascii ''dd if=/dev/zero'']"

definition danger_warning :: "pystr \<Rightarrow> pystr" where
  "danger_warning p =
     [0x68c0, 0x6d4b, 0x5230, 0x5371, 0x9669, 0x547d, 0x4ee4, 0x6a21, 0x5f0f, 0x3a, 0x20] @ p"

definition validate_command :: "(pystr \<Rightarrow> pystr) \<Rightarrow> pystr \<Rightarrow> bool \<times> pystr list" where
  "validate_command lower command =
     (if command = [] \<or> py_strip command = [] then (False, [])
      else (True, map danger_warning
                    (filter (\<lambda>p. py_contains p (lower command)) dangerous_patterns)))"

section \<open>user\_switch.py\<close>

text \<open>
  The functions of \<open>UserSwitch\<close> take \<open>self.platform\<close> as their first argument. They
  wait for their children without a timeout, so they return nothing (\<open>None\<close>) when
  the child never finishes. Their result is the triple \<open>(stdout, stderr, return_code)\<close>.
\<close>

text \<open>\<open>_check_user_exists_linux\<close>: \<open>subprocess.run(['id', user])\<close>.\<close>

definition check_user_exists_linux :: "world \<Rightarrow> pystr \<Rightarrow> (bool \<times> world) option" where
  "check_user_exists_linux w user =
     (case popen w (Spawn (Argv [ascii ''id'', user]) None None) of
        (Exited out err rc, w') \<Rightarrow> Some (rc = 0, w')
      | (SpawnFailed msg, w') \<Rightarrow> Some (False, w')
      | (TimedOut, w') \<Rightarrow> None)"

definition user_not_found :: "pystr \<Rightarrow> pystr" where
  "user_not_found user = [0x7528, 0x6237, 0x4e0d, 0x5b58, 0x5728, 0x3a, 0x20] @ user"

definition communicate :: "proc_outcome \<times> world \<Rightarrow> ((pystr \<times> pystr \<times> int) \<times> world) option" where
  "communicate r =
     (case r of
        (Exited out err rc, w') \<Rightarrow> Some ((out, err, rc), w')
      | (SpawnFailed msg, w') \<Rightarrow> Some (([], msg, - 1), w')
      | (TimedOut, w') \<Rightarrow> None)"

definition execute_as_user_linux ::
  "world \<Rightarrow> pystr \<Rightarrow> pystr \<Rightarrow> pystr option \<Rightarrow> ((pystr \<times> pystr \<times> int) \<times> world) option" where
  "execute_as_user_linux w command user working_dir =
     (case check_user_exists_linux w user of
        None \<Rightarrow> None
      | Some (False, w1) \<Rightarrow> Some (([], user_not_found user, - 1), w1)
      | Some (True, w1) \<Rightarrow>
          (let full_command =
                 (case working_dir of
                    None \<Rightarrow> command
                  | Some d \<Rightarrow> if d = [] then command
                              else ascii ''cd '' @ [39] @ d @ [39] @ ascii '' && '' @ command);
               su_command = ascii ''su -l '' @ user @ ascii '' -c '' @ [39] @ full_command @ [39]
           in communicate (popen w1 (Spawn (Shell su_command) None None))))"

definition execute_as_user_windows ::
  "world \<Rightarrow> pystr \<Rightarrow> pystr \<Rightarrow> ((pystr \<times> pystr \<times> int) \<times> world) option" where
  "execute_as_user_windows w command user =
     (let runas_command = ascii ''runas /user:'' @ user @ ascii '' '' @ [34] @ command @ [34]
      in communicate (popen w (Spawn (Shell runas_command) None None)))"

definition unsupported_platform :: "pystr \<Rightarrow> pystr" where
  "unsupported_platform p = [0x4e0d, 0x652f, 0x6301, 0x7684, 0x5e73, 0x53f0, 0x3a, 0x20] @ p"

definition execute_as_user ::
  "pystr \<Rightarrow> world \<Rightarrow> pystr \<Rightarrow> pystr \<Rightarrow> pystr option \<Rightarrow>
     ((pystr \<times> pystr \<times> int) \<times> world) option" where
  "execute_as_user plat w command user working_dir =
     (if plat = ascii ''linux'' then execute_as_user_linux w command user working_dir
      else if plat = ascii ''windows'' then execute_as_user_windows w command user
      else Some (([], unsupported_platform plat, - 1), w))"

section \<open>script\_executor.py\<close>

text \<open>
  A \<open>ScriptExecutor\<close> builds its \<open>CommandExecutor\<close> from the configuration it was
  built from itself, so it is the executor's record with the scratch directory added.
  The script type is the string the source returns.
\<close>

record ScriptExecutor = CommandExecutor +
  temp_dir :: pystr

text \<open>
  \<open>_detect_script_type_from_content\<close>. \<open>first_line\<close> is \<open>lines[0].strip()\<close> for
  \<open>lines = script_content.strip().split('\n')\<close>, and \<open>by_content\<close> is the chain of
  tests on the whole text that follows the test of the first line.
\<close>

definition first_line :: "pystr \<Rightarrow> pystr" where
  "first_line script_content =
     (case py_split_nl (py_strip script_content) of [] \<Rightarrow> [] | l # _ \<Rightarrow> py_strip l)"

definition by_content :: "pystr \<Rightarrow> pystr" where
  "by_content script_content =
     (if py_startswith (py_strip script_content) (ascii ''import '')
         \<or> py_contains (ascii ''def '') script_content then ascii ''python''
      else if py_startswith (py_strip script_content) (ascii ''#!'')
         \<or> py_contains (ascii ''echo'') script_content then ascii ''shell''
      else if py_contains (ascii ''Write-Host'') script_content
         \<or> py_contains (ascii ''Get-'') script_content then ascii ''powershell''
      else ascii ''shell'')"

definition detect_script_type_from_content :: "pystr \<Rightarrow> pystr" where
  "detect_script_type_from_content script_content =
     (if py_split_nl (py_strip script_content) \<noteq> []
         \<and> py_startswith (first_line script_content) (ascii ''#!/'') then
        (if py_contains (ascii ''python'') (first_line script_content) then ascii ''python''
         else if py_contains (ascii ''bash'') (first_line script_content)
             \<or> py_contains (ascii ''sh'') (first_line script_content) then ascii ''shell''
         else if py_contains (ascii ''powershell'') (first_line script_content)
             \<or> py_contains (ascii ''pwsh'') (first_line script_content) then ascii ''powershell''
         else by_content script_content)
      else by_content script_content)"

text \<open>
  \<open>_create_temp_script\<close>; \<open>random_str\<close> is the eight characters drawn by
  \<open>random.choices\<close>. An exception leaves the world as it was when it was raised.
\<close>

definition script_ext :: "pystr \<Rightarrow> pystr" where
  "script_ext script_type =
     (if script_type = ascii ''python'' then ascii ''.py''
      else if script_type = ascii ''shell'' then ascii ''.sh''
      else if script_type = ascii ''powershell'' then ascii ''.ps1''
      else ascii ''.sh'')"

definition temp_path_of :: "'a ScriptExecutor_scheme \<Rightarrow> pystr \<Rightarrow> pystr \<Rightarrow> pystr" where
  "temp_path_of se random_str ext = os_path_join (temp_dir se) (ascii ''tmp_'' @ random_str @ ext)"

definition create_temp_script ::
  "'a ScriptExecutor_scheme \<Rightarrow> world \<Rightarrow> pystr \<Rightarrow> pystr \<Rightarrow> pystr \<Rightarrow> (pystr + pystr) \<times> world" where
  "create_temp_script se w random_str script_content script_type =
     (let temp_path = temp_path_of se random_str (script_ext script_type)
      in case write_text_file w temp_path script_content of
           (Inl e, w1) \<Rightarrow> (Inl e, w1)
         | (Inr _, w1) \<Rightarrow>
             (case os_chmod w1 temp_path 493 of
                (Inl e, w2) \<Rightarrow> (Inl e, w2)
              | (Inr _, w2) \<Rightarrow> (Inr temp_path, w2)))"

text \<open>The four \<open>_execute_*_script\<close> functions, each through \<open>_execute_command\<close>.\<close>

definition execute_python_script ::
  "'a ScriptExecutor_scheme \<Rightarrow> world \<Rightarrow> pystr \<Rightarrow> pystr option \<Rightarrow> pystr option \<Rightarrow>
     (pystr \<rightharpoonup> pystr) option \<Rightarrow> exec_result \<times> world" where
  "execute_python_script se w script_path user working_dir env =
     execute se w (ascii ''python '' @ [34] @ script_path @ [34]) user working_dir env"

definition execute_shell_script ::
  "'a ScriptExecutor_scheme \<Rightarrow> world \<Rightarrow> pystr \<Rightarrow> pystr option \<Rightarrow> pystr option \<Rightarrow>
     (pystr \<rightharpoonup> pystr) option \<Rightarrow> exec_result \<times> world" where
  "execute_shell_script se w script_path user working_dir env =
     execute se w (ascii ''bash '' @ [34] @ script_path @ [34]) user working_dir env"

definition execute_powershell_script ::
  "'a ScriptExecutor_scheme \<Rightarrow> world \<Rightarrow> pystr \<Rightarrow> pystr option \<Rightarrow> pystr option \<Rightarrow>
     (pystr \<rightharpoonup> pystr) option \<Rightarrow> exec_result \<times> world" where
  "execute_powershell_script se w script_path user working_dir env =
     execute se w
       ((if platform se = ascii ''windows'' then ascii ''powershell -File ''
         else ascii ''pwsh -File '') @ [34] @ script_path @ [34]) user working_dir env"

definition execute_generic_script ::
  "'a ScriptExecutor_scheme \<Rightarrow> world \<Rightarrow> pystr \<Rightarrow> pystr option \<Rightarrow> pystr option \<Rightarrow>
     (pystr \<rightharpoonup> pystr) option \<Rightarrow> exec_result \<times> world" where
  "execute_generic_script se w script_path user working_dir env =
     execute se w ([34] @ script_path @ [34]) user working_dir env"

definition execute_by_type ::
  "'a ScriptExecutor_scheme \<Rightarrow> world \<Rightarrow> pystr \<Rightarrow> pystr \<Rightarrow> pystr option \<Rightarrow> pystr option \<Rightarrow>
     (pystr \<rightharpoonup> pystr) option \<Rightarrow> exec_result \<times> world" where
  "execute_by_type se w script_type script_path user working_dir env =
     (if script_type = ascii ''python'' then execute_python_script se w script_path user working_dir env
      else if script_type = ascii ''shell'' then execute_shell_script se w script_path user working_dir env
      else if script_type = ascii ''powershell''
        then execute_powershell_script se w script_path user working_dir env
      else execute_generic_script se w script_path user working_dir env)"

text \<open>\<open>_cleanup_temp_file\<close>: a failing \<open>os.remove\<close> is logged and nothing more.\<close>

definition cleanup_temp_file :: "world \<Rightarrow> pystr \<Rightarrow> world" where
  "cleanup_temp_file w file_path =
     (if os_path_exists w file_path then snd (os_remove w file_path) else w)"

definition failure :: "pystr \<Rightarrow> exec_result" where
  "failure e = \<lparr>success = False, output_text = [], error = e, return_code = - 1\<rparr>"

text \<open>\<open>execute_script_content\<close>.\<close>

definition execute_script_content ::
  "'a ScriptExecutor_scheme \<Rightarrow> world \<Rightarrow> pystr \<Rightarrow> pystr \<Rightarrow> pystr option \<Rightarrow> pystr option \<Rightarrow>
     (pystr \<rightharpoonup> pystr) option \<Rightarrow> exec_result \<times> world" where
  "execute_script_content se w random_str script_content user working_dir env =
     (let script_type = detect_script_type_from_content script_content
      in case create_temp_script se w random_str script_content script_type of
           (Inl e, w1) \<Rightarrow> (failure e, w1)
         | (Inr temp_script_path, w1) \<Rightarrow>
             (let (result, w2) = execute_by_type se w1 script_type temp_script_path user working_dir env
              in (result, cleanup_temp_file w2 temp_script_path)))"

text \<open>\<open>_create_wrapper_script\<close>: the text of the generated Python program.\<close>

definition create_wrapper_script :: "pystr \<Rightarrow> pystr \<Rightarrow> pystr \<Rightarrow> pystr" where
  "create_wrapper_script script_content temp_script_path interpreter =
     [10] @
     ascii ''import subprocess'' @ [10] @
     ascii ''import os'' @ [10] @
     ascii ''import sys'' @ [10] @
     [10] @
     ascii ''script_content = '' @ [34, 34, 34] @ script_content @ [34, 34, 34, 10] @
     [10] @
     ascii ''temp_script_path = '' @ [34] @ temp_script_path @ [34, 10] @
     [10] @
     ascii ''# '' @ [20889, 20837, 21407, 22987, 33050, 26412, 20869, 23481, 10] @
     ascii ''with open(temp_script_path, '' @ [39] @ ascii ''w'' @ [39] @ ascii '', encoding='' @
       [39] @ ascii ''utf-8'' @ [39] @ ascii '') as f:'' @ [10] @
     ascii ''    f.write(script_content)'' @ [10] @
     [10] @
     ascii ''# '' @ [28155, 21152, 25191, 34892, 26435, 38480, 10] @
     ascii ''os.chmod(temp_script_path, 0o755)'' @ [10] @
     [10] @
     ascii ''# '' @ [25191, 34892, 33050, 26412, 10] @
     ascii ''result = subprocess.run(['' @ [34] @ interpreter @ [34] @
       ascii '', temp_script_path],'' @ [10] @
     ascii ''                       capture_output=True, text=True, env=os.environ)'' @ [10] @
     [10] @
     ascii ''# '' @ [36755, 20986, 32467, 26524, 10] @
     ascii ''print(result.stdout)'' @ [10] @
     ascii ''if result.returncode != 0:'' @ [10] @
     ascii ''    print(result.stderr, file=sys.stderr)'' @ [10] @
     [10] @
     ascii ''# '' @ [28165, 29702, 20020, 26102, 25991, 20214, 10] @
     ascii ''os.remove(temp_script_path)'' @ [10] @
     [10] @
     ascii ''sys.exit(result.returncode)'' @ [10]"

text \<open>\<open>_execute_python_script_content\<close>; an exception of \<open>_create_temp_script\<close> goes up.\<close>

definition execute_python_script_content ::
  "'a ScriptExecutor_scheme \<Rightarrow> world \<Rightarrow> pystr \<Rightarrow> pystr \<Rightarrow> pystr option \<Rightarrow> pystr option \<Rightarrow>
     (pystr \<rightharpoonup> pystr) option \<Rightarrow> (pystr + exec_result) \<times> world" where
  "execute_python_script_content se w random_str script_content user working_dir env =
     (case create_temp_script se w random_str script_content (ascii ''python'') of
        (Inl e, w1) \<Rightarrow> (Inl e, w1)
      | (Inr temp_python_script, w1) \<Rightarrow>
          (let (result, w2) = execute_python_script se w1 temp_python_script user working_dir env
           in (Inr result, cleanup_temp_file w2 temp_python_script)))"

text \<open>
  \<open>execute_dynamic_wrapper\<close>; \<open>random_str\<close> names the file the generated program
  writes, \<open>random_str2\<close> the file of the generated program itself.
\<close>

definition wrapper_interpreter :: "'a ScriptExecutor_scheme \<Rightarrow> pystr \<Rightarrow> pystr" where
  "wrapper_interpreter se original_type =
     (if original_type = ascii ''python'' then ascii ''python''
      else if original_type = ascii ''shell'' then ascii ''bash''
      else if original_type = ascii ''powershell''
        then (if platform se = ascii ''windows'' then ascii ''powershell'' else ascii ''pwsh'')
      else ascii ''bash'')"

definition execute_dynamic_wrapper ::
  "'a ScriptExecutor_scheme \<Rightarrow> world \<Rightarrow> pystr \<Rightarrow> pystr \<Rightarrow> pystr \<Rightarrow> pystr option \<Rightarrow> pystr option \<Rightarrow>
     (pystr \<rightharpoonup> pystr) option \<Rightarrow> exec_result \<times> world" where
  "execute_dynamic_wrapper se w random_str random_str2 script_content user working_dir env =
     (let original_type = detect_script_type_from_content script_content;
          temp_script_path = temp_path_of se random_str (script_ext original_type);
          wrapper_script = create_wrapper_script script_content temp_script_path
                             (wrapper_interpreter se original_type)
      in case execute_python_script_content se w random_str2 wrapper_script user working_dir env of
           (Inl e, w1) \<Rightarrow> (failure e, w1)
         | (Inr result, w1) \<Rightarrow> (result, cleanup_temp_file w1 temp_script_path))"

section \<open>security.py\<close>

text \<open>
  PyJWT and the Fernet recipe of \<open>cryptography\<close> are not part of the repository: they
  are parameters. A JWT payload is a dictionary of JSON values, kept as an association
  list with distinct keys. The token is whatever \<open>jwt.encode\<close> returns. The clock
  (\<open>time.time()\<close>) and the random bytes (\<open>os.urandom\<close>) are arguments.
\<close>

datatype json =
    JNull
  | JBool bool
  | JInt int
  | JStr pystr
  | JList "json list"
  | JObj "(pystr \<times> json) list"

type_synonym payload = "(pystr \<times> json) list"

datatype py_exception =
    UnicodeEncodeError pystr
  | UnicodeDecodeError
  | ValueError pystr
  | InvalidToken
  | ExpiredSignatureError
  | InvalidTokenError pystr

record 'tok jwt_lib =
  jwt_encode :: "payload \<Rightarrow> pystr \<Rightarrow> 'tok"
  jwt_decode :: "'tok \<Rightarrow> pystr \<Rightarrow> int \<Rightarrow> py_exception + payload"

record fernet_lib =
  pbkdf2_hmac_sha256 :: "bytes \<Rightarrow> nat \<Rightarrow> nat \<Rightarrow> bytes \<Rightarrow> bytes"
  fernet_encrypt :: "bytes \<Rightarrow> bytes \<Rightarrow> int \<Rightarrow> bytes \<Rightarrow> bytes"
  fernet_decrypt :: "bytes \<Rightarrow> bytes \<Rightarrow> py_exception + bytes"

text \<open>
  \<open>jwt_decode lib token key now\<close> is \<open>jwt.decode(token, key, algorithms=['HS256'])\<close> at
  the time \<open>now\<close>; \<open>fernet_encrypt lib key iv now data\<close> is \<open>Fernet(key).encrypt(data)\<close>
  with the initialisation vector and the time it draws; \<open>pbkdf2_hmac_sha256 lib salt
  iterations length\<close> is the \<open>derive\<close> of that key derivation.
\<close>

record SecurityManager =
  jwt_secret :: pystr
  jwt_expire_hours :: int
  aes_key :: pystr
  fernet :: bytes

text \<open>\<open>base64.urlsafe_b64encode\<close>.\<close>

definition b64_char :: "nat \<Rightarrow> char" where
  "b64_char i =
     char_of (if i < 26 then 65 + i else if i < 52 then 71 + i else if i < 62 then i - 4
              else if i = 62 then 45 else 95)"

fun urlsafe_b64encode :: "bytes \<Rightarrow> bytes" where
  "urlsafe_b64encode [] = []"
| "urlsafe_b64encode [a] =
     [b64_char (of_char a div 4), b64_char (of_char a mod 4 * 16), CHR ''='', CHR ''='']"
| "urlsafe_b64encode [a, b] =
     [b64_char (of_char a div 4), b64_char (of_char a mod 4 * 16 + of_char b div 16),
      b64_char (of_char b mod 16 * 4), CHR ''='']"
| "urlsafe_b64encode (a # b # c # r) =
     [b64_char (of_char a div 4), b64_char (of_char a mod 4 * 16 + of_char b div 16),
      b64_char (of_char b mod 16 * 4 + of_char c div 64), b64_char (of_char c mod 64)]
     @ urlsafe_b64encode r"

text \<open>
  \<open>_init_fernet\<close>: the length test counts the characters of the secret, the key is
  made from its bytes; \<open>Fernet(key)\<close> raises \<open>ValueError\<close> unless the key is the
  base64 text of 32 bytes.
\<close>

definition init_fernet :: "fernet_lib \<Rightarrow> pystr \<Rightarrow> py_exception + bytes" where
  "init_fernet lib secret =
     (case utf8_encode secret of
        None \<Rightarrow> Inl (UnicodeEncodeError (encode_error_message secret))
      | Some raw \<Rightarrow>
          (let key32 = (if length secret \<noteq> 32
                        then pbkdf2_hmac_sha256 lib (map char_of (ascii ''aiops_salt'')) 100000 32 raw
                        else raw)
           in if length key32 = 32 then Inr (urlsafe_b64encode key32)
              else Inl (ValueError (ascii ''Fernet key must be 32 url-safe base64-encoded bytes.''))))"

text \<open>\<open>generate_jwt_token\<close>: the clock is read once for \<open>exp\<close> and once for \<open>iat\<close>.\<close>

definition generate_jwt_token ::
  "'tok jwt_lib \<Rightarrow> SecurityManager \<Rightarrow> int \<Rightarrow> int \<Rightarrow> payload \<Rightarrow> 'tok" where
  "generate_jwt_token lib sm now1 now2 payload =
     jwt_encode lib
       (AList.update (ascii ''iat'') (JInt now2)
          (AList.update (ascii ''exp'') (JInt (now1 + jwt_expire_hours sm * 3600)) payload))
       (jwt_secret sm)"

text \<open>\<open>verify_jwt_token\<close>: every exception of \<open>jwt.decode\<close> gives \<open>None\<close>.\<close>

definition verify_jwt_token ::
  "'tok jwt_lib \<Rightarrow> SecurityManager \<Rightarrow> int \<Rightarrow> 'tok \<Rightarrow> payload option" where
  "verify_jwt_token lib sm now token =
     (case jwt_decode lib token (jwt_secret sm) now of
        Inr payload \<Rightarrow> Some payload
      | Inl e \<Rightarrow> None)"



text \<open>
  \<open>generate_api_key\<close>: \<open>random32\<close> is \<open>os.urandom(32)\<close>; the base64 text of bytes is
  ASCII, its \<open>decode()\<close> is the same characters. The result is the pair of \<open>api_key\<close>
  and \<open>token\<close>.
\<close>

definition generate_api_key ::
  "'tok jwt_lib \<Rightarrow> SecurityManager \<Rightarrow> int \<Rightarrow> int \<Rightarrow> bytes \<Rightarrow> pystr \<Rightarrow> json list \<Rightarrow> pystr \<times> 'tok" where
  "generate_api_key lib sm now1 now2 random32 user_id permissions =
     (let api_key = map of_char (urlsafe_b64encode random32);
          payload = [(ascii ''user_id'', JStr user_id),
                     (ascii ''permissions'', JList permissions),
                     (ascii ''api_key'', JStr api_key),
                     (ascii ''type'', JStr (ascii ''api_key''))]
      in (api_key, generate_jwt_token lib sm now1 now2 payload))"

text \<open>\<open>verify_api_key\<close>; \<open>payload.get(k)\<close> is \<open>None\<close> for a missing key.\<close>

definition verify_api_key ::
  "'tok jwt_lib \<Rightarrow> SecurityManager \<Rightarrow> int \<Rightarrow> pystr \<Rightarrow> 'tok \<Rightarrow> bool" where
  "verify_api_key lib sm now api_key token =
     (case verify_jwt_token lib sm now token of
        None \<Rightarrow> False
      | Some payload \<Rightarrow>
          if payload = [] then False
          else if map_of payload (ascii ''api_key'') \<noteq> Some (JStr api_key) then False
          else if map_of payload (ascii ''type'') \<noteq> Some (JStr (ascii ''api_key'')) then False
          else True)"

text \<open>
  \<open>permission in user_permissions\<close> for a string \<open>permission\<close>: an element of a list,
  a substring of a string, a key of a dictionary; \<open>None\<close> for the \<open>TypeError\<close> that
  the other values raise.
\<close>

fun str_in :: "pystr \<Rightarrow> json \<Rightarrow> bool option" where
  "str_in s (JList xs) = Some (JStr s \<in> set xs)"
| "str_in s (JStr t) = Some (py_contains s t)"
| "str_in s (JObj kvs) = Some (s \<in> fst ` set kvs)"
| "str_in s JNull = None"
| "str_in s (JBool b) = None"
| "str_in s (JInt i) = None"

text \<open>
  The loop of \<open>validate_token_permissions\<close>: a missing permission returns false, and so
  does an exception.
\<close>

fun has_all_permissions :: "pystr list \<Rightarrow> json \<Rightarrow> bool" where
  "has_all_permissions [] user_permissions = True"
| "has_all_permissions (permission # rest) user_permissions =
     (case str_in permission user_permissions of
        None \<Rightarrow> False
      | Some False \<Rightarrow> False
      | Some True \<Rightarrow> has_all_permissions rest user_permissions)"

text \<open>\<open>validate_token_permissions\<close>; \<open>if not payload\<close> also refuses the empty dictionary.\<close>

definition validate_token_permissions ::
  "'tok jwt_lib \<Rightarrow> SecurityManager \<Rightarrow> int \<Rightarrow> 'tok \<Rightarrow> pystr list \<Rightarrow> bool" where
  "validate_token_permissions lib sm now token required_permissions =
     (case verify_jwt_token lib sm now token of
        None \<Rightarrow> False
      | Some payload \<Rightarrow>
          if payload = [] then False
          else has_all_permissions required_permissions
                 (case map_of payload (ascii ''permissions'') of
                    None \<Rightarrow> JList []
                  | Some v \<Rightarrow> v))"

section \<open>What the repository relies on from its libraries\<close>

text \<open>
  PyJWT: a payload with distinct keys, with an integer \<open>exp\<close>, with no \<open>iat\<close> in the
  future and with none of the other registered claims that \<open>jwt.decode\<close> validates, is
  returned unchanged by \<open>jwt.decode\<close> of its own \<open>jwt.encode\<close> under the same key
  while the time is before \<open>exp\<close>, and gives \<open>ExpiredSignatureError\<close> once the time
  is past \<open>exp\<close>.
\<close>

definition pyjwt_contract :: "'tok jwt_lib \<Rightarrow> bool" where
  "pyjwt_contract lib \<longleftrightarrow>
     (\<forall>p k now e.
        distinct (map fst p) \<and> map_of p (ascii ''exp'') = Some (JInt e) \<and>
        (\<forall>v. map_of p (ascii ''iat'') = Some v \<longrightarrow> (\<exists>i. v = JInt i \<and> i \<le> now)) \<and>
        list_all (\<lambda>c. map_of p c = None)
          [ascii ''nbf'', ascii ''aud'', ascii ''iss'', ascii ''sub'', ascii ''jti'']
        \<longrightarrow> (now < e \<longrightarrow> jwt_decode lib (jwt_encode lib p k) k now = Inr p) \<and>
            (e < now \<longrightarrow> jwt_decode lib (jwt_encode lib p k) k now = Inl ExpiredSignatureError))"


section \<open>Shell quoting\<close>

text \<open>
  The shell reads a single-quoted word from the opening quote to the next single quote:
  the text that the quote opened at index \<open>i\<close> of a command line encloses.
\<close>

definition single_quoted_from :: "nat \<Rightarrow> pystr \<Rightarrow> pystr" where
  "single_quoted_from i s = takeWhile (\<lambda>x. x \<noteq> 39) (drop (Suc i) s)"

section \<open>Hosts and configurations for concrete runs\<close>

text \<open>
  A quiet host: its children answer by a fixed table and leave the files alone, and no
  file operation fails.
\<close>

definition quiet_host :: "(spawn \<Rightarrow> proc_outcome) \<Rightarrow> world" where
  "quiet_host f =
     \<lparr>child = (\<lambda>sp fs. (f sp, fs)), fails = (\<lambda>c. None), environ = Map.empty,
      files = Map.empty, spawned = []\<rparr>"

definition default_executor :: CommandExecutor where
  "default_executor = \<lparr>platform = ascii ''linux'', timeout = 300, max_output_size = 1048576\<rparr>"

definition default_script_executor :: ScriptExecutor where
  "default_script_executor =
     \<lparr>platform = ascii ''linux'', timeout = 300, max_output_size = 1048576,
      temp_dir = ascii ''/tmp/aiops''\<rparr>"

text \<open>A host on which every \<open>os.remove\<close> is refused.\<close>

definition remove_denied :: "world \<Rightarrow> world" where
  "remove_denied w =
     w\<lparr>fails := (\<lambda>c. case c of Remove p \<Rightarrow> Some (ascii ''[Errno 1] Operation not permitted'')
                              | _ \<Rightarrow> None)\<rparr>"

text \<open>
  Ideal libraries for concrete runs. A token of \<open>ideal_jwt\<close> is the payload with the
  key that signed it. A token of \<open>ideal_fernet\<close> is the key and the plaintext, each
  byte written as two letters from A to P.
\<close>

definition ideal_jwt :: "(payload \<times> pystr) jwt_lib" where
  "ideal_jwt =
     \<lparr>jwt_encode = (\<lambda>p k. (p, k)),
      jwt_decode = (\<lambda>tok k now.
        if snd tok \<noteq> k then Inl (InvalidTokenError (ascii ''Signature verification failed''))
        else (case map_of (fst tok) (ascii ''exp'') of
                Some (JInt e) \<Rightarrow> if e \<le> now then Inl ExpiredSignatureError else Inr (fst tok)
              | _ \<Rightarrow> Inr (fst tok)))\<rparr>"

definition hex_pair :: "char \<Rightarrow> bytes" where
  "hex_pair c = [char_of (65 + (of_char c :: nat) div 16), char_of (65 + (of_char c :: nat) mod 16)]"

definition enc2 :: "bytes \<Rightarrow> bytes" where
  "enc2 x = concat (map hex_pair x)"

fun dec2 :: "bytes \<Rightarrow> bytes option" where
  "dec2 [] = Some []"
| "dec2 [a] = None"
| "dec2 (a # b # r) =
     (if 65 \<le> (of_char a :: nat) \<and> (of_char a :: nat) < 81
         \<and> 65 \<le> (of_char b :: nat) \<and> (of_char b :: nat) < 81
      then map_option ((#) (char_of (((of_char a :: nat) - 65) * 16 + ((of_char b :: nat) - 65))))
             (dec2 r)
      else None)"

definition ideal_fernet :: fernet_lib where
  "ideal_fernet =
     \<lparr>pbkdf2_hmac_sha256 = (\<lambda>salt iterations n secret. replicate n (CHR ''k'')),
      fernet_encrypt = (\<lambda>k iv t x. enc2 k @ enc2 x),
      fernet_decrypt = (\<lambda>k tok.
        if take (2 * length k) tok = enc2 k
        then (case dec2 (drop (2 * length k) tok) of
                Some x \<Rightarrow> Inr x
              | None \<Rightarrow> Inl InvalidToken)
        else Inl InvalidToken)\<rparr>"

text \<open>The manager of \<open>tests/test_security.py\<close>, its Fernet key derived by \<open>ideal_fernet\<close>.\<close>

definition test_manager :: SecurityManager where
  "test_manager =
     \<lparr>jwt_secret = ascii ''test-jwt-secret'', jwt_expire_hours = 1,
      aes_key = ascii ''test-aes-key-32-bytes-long-key'',
      fernet = urlsafe_b64encode (replicate 32 (CHR ''k''))\<rparr>"


section \<open>Properties of executor.py\<close>

lemma py_strip_Nil_iff: "py_strip s = [] \<longleftrightarrow> list_all py_isspace s"
proof
  assume "list_all py_isspace s"
  then have h: "dropWhile py_isspace s = []" by (simp add: list_all_iff)
  show "py_strip s = []" unfolding py_strip_def h by simp
next
  assume a: "py_strip s = []"
  show "list_all py_isspace s"
  proof (rule ccontr)
    assume "\<not> list_all py_isspace s"
    then have ne: "dropWhile py_isspace s \<noteq> []" by (simp add: list_all_iff)
    then have "\<not> py_isspace (hd (dropWhile py_isspace s))" by (rule hd_dropWhile)
    moreover have "hd (dropWhile py_isspace s) \<in> set (rev (dropWhile py_isspace s))"
      using ne by simp
    ultimately have "dropWhile py_isspace (rev (dropWhile py_isspace s)) \<noteq> []"
      by (metis dropWhile_eq_Nil_conv)
    then show False using a by (simp add: py_strip_def)
  qed
qed

lemma run_command_cases:
  "fst (run_command ex w c wd env) =
     (case fst (child w (Spawn (Shell c) wd
                  (Some (case env of None \<Rightarrow> environ w | Some e \<Rightarrow> environ w ++ e))) (files w)) of
        SpawnFailed msg \<Rightarrow> Inl (OtherException msg)
      | TimedOut \<Rightarrow> Inl TimeoutExpired
      | Exited out err rc \<Rightarrow>
          Inr (limit_output (max_output_size ex) stdout_marker out,
               limit_output (max_output_size ex) stderr_marker err, rc))"
  by (simp add: run_command_def popen_def Let_def split: prod.splits proc_outcome.splits)

text \<open>
  What \<open>execute\<close> reports as success: the child was started and finished in time,
  whatever its exit code.
\<close>

lemma execute_success_iff_exited:
  "success (fst (execute ex w c user wd env)) \<longleftrightarrow>
     (\<exists>out err rc. fst (run_command ex w
        (case user of None \<Rightarrow> c | Some u \<Rightarrow> if u = [] then c else prepare_command_with_user ex c u)
        wd env) = Inr (out, err, rc))"
  by (auto simp add: execute_def Let_def split: prod.splits sum.splits exec_error.splits)

text \<open>
  C1. The result of \<open>execute\<close> should have \<open>success\<close> exactly when the exit code is 0 and
  no internal error occurred; a command whose child exits with a non-zero code should give
  \<open>success = False\<close> with that code. The code sets \<open>success = True\<close> whenever the child
  finished: for a child that exits with 127 the result has \<open>success = True\<close> and
  \<open>return_code = 127\<close>, against \<open>test_execute_failure\<close> of the repository.
\<close>

theorem execute_nonzero_exit_reports_success:
  "execute default_executor
     (quiet_host (\<lambda>sp. Exited [] (ascii ''not found'') 127))
     (ascii ''invalid_command'') None None None =
   (\<lparr>success = True, output_text = [], error = ascii ''not found'', return_code = 127\<rparr>,
    (quiet_host (\<lambda>sp. Exited [] (ascii ''not found'') 127))
      \<lparr>spawned := [Spawn (Shell (ascii ''invalid_command'')) None (Some Map.empty)]\<rparr>)"
  by (simp add: execute_def run_command_def popen_def quiet_host_def default_executor_def
      limit_output_def ascii_def)

text \<open>
  C9. \<open>validate_command\<close> returns false exactly for the empty and the all-white-space
  text; a text that is not blank and contains a dangerous pattern is still accepted, and
  the pattern is only logged.
\<close>

theorem validate_command_rejects_iff_blank:
  "(fst (validate_command lower c) = False) = (c = [] \<or> list_all py_isspace c) \<and>
   (\<not> list_all py_isspace c \<and> p \<in> set dangerous_patterns \<and> py_contains p (lower c) \<longrightarrow>
      fst (validate_command lower c) = True \<and>
      danger_warning p \<in> set (snd (validate_command lower c)))"
  by (auto simp add: validate_command_def py_strip_Nil_iff)

lemma mkfs_codes: "ascii ''mkfs'' = [109, 107, 102, 115]"
  by (simp add: ascii_def)

lemma mkfs_not_blank: "\<not> list_all py_isspace (ascii ''mkfs'')"
  by (simp add: mkfs_codes py_isspace_def)

lemma mkfs_dangerous: "ascii ''mkfs'' \<in> set dangerous_patterns"
  by (simp add: dangerous_patterns_def)

theorem validate_command_rejects_iff_blank_witness:
  "\<not> list_all py_isspace (ascii ''mkfs'') \<and> ascii ''mkfs'' \<in> set dangerous_patterns \<and>
   py_contains (ascii ''mkfs'') (ascii ''mkfs'') \<and>
   fst (validate_command (\<lambda>s. s) (ascii ''mkfs'')) = True \<and>
   danger_warning (ascii ''mkfs'') \<in> set (snd (validate_command (\<lambda>s. s) (ascii ''mkfs'')))"
  using validate_command_rejects_iff_blank [of "\<lambda>s. s" "ascii ''mkfs''" "ascii ''mkfs''"]
    mkfs_not_blank mkfs_dangerous
  by (simp add: py_contains_def)

text \<open>
  C10. On Linux the rewrite of \<open>_prepare_command_with_user\<close> is exactly
  \<open>"su - " + user + " -c '" + command + "'"\<close>, the command put in unescaped; so for a
  command that contains a single quote, the text enclosed by the wrapping quotes is not
  the command.
\<close>

theorem prepare_command_with_user_linux:
  "platform ex = ascii ''linux'' \<Longrightarrow>
     prepare_command_with_user ex c u = ascii ''su - '' @ u @ ascii '' -c '' @ [39] @ c @ [39] \<and>
     (39 \<in> set c \<longrightarrow>
        single_quoted_from (length (ascii ''su - '' @ u @ ascii '' -c ''))
          (prepare_command_with_user ex c u) \<noteq> c)"
proof -
  assume linux: "platform ex = ascii ''linux''"
  have eq: "prepare_command_with_user ex c u = ascii ''su - '' @ u @ ascii '' -c '' @ [39] @ c @ [39]"
    using linux by (simp add: prepare_command_with_user_def)
  have "single_quoted_from (length (ascii ''su - '' @ u @ ascii '' -c ''))
          (prepare_command_with_user ex c u) \<noteq> c" if q: "39 \<in> set c"
  proof -
    have "single_quoted_from (length (ascii ''su - '' @ u @ ascii '' -c ''))
            (prepare_command_with_user ex c u) = takeWhile (\<lambda>x. x \<noteq> 39) (c @ [39])"
      unfolding eq single_quoted_from_def by simp
    also have "\<dots> = takeWhile (\<lambda>x. x \<noteq> 39) c"
      using q by (simp add: takeWhile_append1)
    finally have "set (single_quoted_from (length (ascii ''su - '' @ u @ ascii '' -c ''))
            (prepare_command_with_user ex c u)) \<subseteq> {x. x \<noteq> 39}"
      by (auto dest: set_takeWhileD)
    then show ?thesis using q by auto
  qed
  with eq show ?thesis by blast
qed

theorem prepare_command_with_user_linux_witness:
  "platform default_executor = ascii ''linux'' \<and> 39 \<in> set [39, 97::nat] \<and>
   prepare_command_with_user default_executor [39, 97] (ascii ''bob'')
     = ascii ''su - '' @ ascii ''bob'' @ ascii '' -c '' @ [39] @ [39, 97] @ [39] \<and>
   single_quoted_from (length (ascii ''su - '' @ ascii ''bob'' @ ascii '' -c ''))
     (prepare_command_with_user default_executor [39, 97] (ascii ''bob'')) \<noteq> [39, 97]"
proof -
  have l: "platform default_executor = ascii ''linux''"
    by (simp add: default_executor_def)
  have q: "39 \<in> set [39, 97::nat]"
    by simp
  from prepare_command_with_user_linux [OF l, of "[39, 97]" "ascii ''bob''"] q l
  show ?thesis by blast
qed

text \<open>
  C5 as stated: a stream longer than \<open>max_output_size\<close> comes back cut to exactly
  \<open>max_output_size\<close> bytes, with the marker appended. The streams are text
  (\<open>text=True\<close>) and \<open>len\<close> counts characters: with a limit of 1, an output
  of two characters U+00E9 is cut to one character, two bytes of UTF-8; with a limit of 3
  the same output, four bytes long, is not cut at all.
\<close>

theorem run_command_truncation_counts_characters:
  "fst (run_command (default_executor\<lparr>max_output_size := 1\<rparr>)
         (quiet_host (\<lambda>sp. Exited [233, 233] [] 0)) (ascii ''cat f'') None None)
     = Inr ([233] @ stdout_marker, [], 0) \<and>
   map_option length (utf8_encode [233]) = Some 2 \<and>
   fst (run_command (default_executor\<lparr>max_output_size := 3\<rparr>)
         (quiet_host (\<lambda>sp. Exited [233, 233] [] 0)) (ascii ''cat f'') None None)
     = Inr ([233, 233], [], 0) \<and>
   map_option length (utf8_encode [233, 233]) = Some 4"
  by (simp add: run_command_cases quiet_host_def default_executor_def limit_output_def
      py_slice_to_def utf8_encode_def utf8_char_def is_surrogate_def)

text \<open>
  C5, amended: for a limit that is not negative, a stream of more than
  \<open>max_output_size\<close> characters comes back as its first \<open>max_output_size\<close> characters
  followed by its marker, and a stream within the limit comes back unchanged; standard
  output and standard error are cut independently, each with its own marker.
\<close>

theorem run_command_truncates_each_stream:
  assumes "0 \<le> max_output_size ex"
    and "fst (child w (Spawn (Shell c) wd
                (Some (case env of None \<Rightarrow> environ w | Some e \<Rightarrow> environ w ++ e))) (files w))
         = Exited out err rc"
  shows "fst (run_command ex w c wd env) =
     Inr (if int (length out) > max_output_size ex
          then take (nat (max_output_size ex)) out @ stdout_marker else out,
          if int (length err) > max_output_size ex
          then take (nat (max_output_size ex)) err @ stderr_marker else err, rc) \<and>
     (int (length out) > max_output_size ex \<longrightarrow>
        int (length (take (nat (max_output_size ex)) out)) = max_output_size ex) \<and>
     (int (length err) > max_output_size ex \<longrightarrow>
        int (length (take (nat (max_output_size ex)) err)) = max_output_size ex)"
  using assms by (simp add: run_command_cases limit_output_def py_slice_to_def)

theorem run_command_truncates_each_stream_witness:
  "fst (run_command (default_executor\<lparr>max_output_size := 2\<rparr>)
         (quiet_host (\<lambda>sp. Exited [97, 98, 99] [100, 101] 0)) (ascii ''cat f'') None None) =
     Inr ([97, 98] @ stdout_marker, [100, 101], 0) \<and>
   int (length (take 2 [97, 98, 99::nat])) = 2"
  using run_command_truncates_each_stream [of "default_executor\<lparr>max_output_size := 2\<rparr>"
      "quiet_host (\<lambda>sp. Exited [97, 98, 99] [100, 101] 0)" "ascii ''cat f''" None None
      "[97, 98, 99]" "[100, 101]" 0]
  by (simp add: default_executor_def quiet_host_def)

section \<open>Properties of the switch of identity\<close>

lemma execute_spawns:
  "spawned (snd (execute ex w c user wd env)) =
     spawned w @ [Spawn (Shell (case user of None \<Rightarrow> c
                                 | Some u \<Rightarrow> if u = [] then c else prepare_command_with_user ex c u))
                    wd (Some (case env of None \<Rightarrow> environ w | Some e \<Rightarrow> environ w ++ e))]"
  by (simp add: execute_def run_command_def popen_def Let_def
      split: prod.splits sum.splits exec_error.splits proc_outcome.splits option.splits)

lemma check_user_exists_linux_spawns:
  "check_user_exists_linux w u = Some (b, w1) \<Longrightarrow>
     spawned w1 = spawned w @ [Spawn (Argv [ascii ''id'', u]) None None]"
  by (auto simp add: check_user_exists_linux_def popen_def Let_def
      split: prod.splits proc_outcome.splits)

text \<open>
  C2 as stated: running a command under a name that the identity database does not know
  gives \<open>success = False\<close> and exit code \<open>-1\<close> without any child being spawned.
  \<open>CommandExecutor.execute\<close>, the path the server takes, does not look the name up: on a
  host where \<open>id\<close> and \<open>su\<close> both answer that the user is unknown, it spawns
  \<open>su - ghost -c 'ls'\<close> and reports \<open>success = True\<close> with the exit code 1 of \<open>su\<close>.
\<close>

theorem execute_unknown_user_spawns_su:
  "execute default_executor (quiet_host (\<lambda>sp. Exited [] (ascii ''no such user'') 1))
     (ascii ''ls'') (Some (ascii ''ghost'')) None None =
   (\<lparr>success = True, output_text = [], error = ascii ''no such user'', return_code = 1\<rparr>,
    (quiet_host (\<lambda>sp. Exited [] (ascii ''no such user'') 1))
      \<lparr>spawned := [Spawn (Shell (ascii ''su - '' @ ascii ''ghost'' @ ascii '' -c '' @ [39]
                                   @ ascii ''ls'' @ [39])) None (Some Map.empty)]\<rparr>)"
  by (simp add: execute_def run_command_def popen_def quiet_host_def default_executor_def
      limit_output_def prepare_command_with_user_def ascii_def)

text \<open>
  C2, amended: on Linux \<open>UserSwitch.execute_as_user\<close>, for a name that the lookup
  \<open>id user\<close> reports missing, returns the triple \<open>('', '\<dots>: ' + user, -1)\<close> (user not
  found; the triple has no success flag), and the lookup is the only child it spawns: the
  \<open>su\<close> command is never started. \<open>CommandExecutor.execute\<close> makes no lookup: for every
  non-empty name it spawns \<open>su - user -c 'command'\<close> and nothing else.
\<close>

theorem unknown_user_not_run_by_user_switch:
  "(check_user_exists_linux w u = Some (False, w1) \<longrightarrow>
      execute_as_user (ascii ''linux'') w c u wd = Some (([], user_not_found u, - 1), w1) \<and>
      spawned w1 = spawned w @ [Spawn (Argv [ascii ''id'', u]) None None]) \<and>
   (platform ex = ascii ''linux'' \<and> u \<noteq> [] \<longrightarrow>
      spawned (snd (execute ex w c (Some u) wd env)) =
        spawned w @ [Spawn (Shell (ascii ''su - '' @ u @ ascii '' -c '' @ [39] @ c @ [39])) wd
                       (Some (case env of None \<Rightarrow> environ w | Some e \<Rightarrow> environ w ++ e))])"
  by (auto simp add: execute_as_user_def execute_as_user_linux_def execute_spawns
      prepare_command_with_user_def dest: check_user_exists_linux_spawns)

theorem unknown_user_not_run_by_user_switch_witness:
  "execute_as_user (ascii ''linux'') (quiet_host (\<lambda>sp. Exited [] (ascii ''no such user'') 1))
     (ascii ''ls'') (ascii ''ghost'') None =
   Some (([], user_not_found (ascii ''ghost''), - 1),
         (quiet_host (\<lambda>sp. Exited [] (ascii ''no such user'') 1))
           \<lparr>spawned := [Spawn (Argv [ascii ''id'', ascii ''ghost'']) None None]\<rparr>) \<and>
   spawned (snd (execute default_executor (quiet_host (\<lambda>sp. Exited [] (ascii ''no such user'') 1))
                  (ascii ''ls'') (Some (ascii ''ghost'')) None None)) =
     [Spawn (Shell (ascii ''su - '' @ ascii ''ghost'' @ ascii '' -c '' @ [39] @ ascii ''ls'' @ [39]))
        None (Some Map.empty)]"
proof -
  let ?w = "quiet_host (\<lambda>sp. Exited [] (ascii ''no such user'') 1)"
  have look: "check_user_exists_linux ?w (ascii ''ghost'') =
      Some (False, ?w\<lparr>spawned := [Spawn (Argv [ascii ''id'', ascii ''ghost'']) None None]\<rparr>)"
    by (simp add: check_user_exists_linux_def popen_def quiet_host_def)
  have linux: "platform default_executor = ascii ''linux''"
    by (simp add: default_executor_def)
  have name: "ascii ''ghost'' \<noteq> []"
    by (simp add: ascii_def)
  have w0: "spawned ?w = []" "environ ?w = Map.empty"
    by (simp_all add: quiet_host_def)
  from unknown_user_not_run_by_user_switch [of ?w "ascii ''ghost''"
      "?w\<lparr>spawned := [Spawn (Argv [ascii ''id'', ascii ''ghost'']) None None]\<rparr>"
      "ascii ''ls''" None default_executor None] look linux name w0
  show ?thesis by simp
qed

section \<open>Properties of script\_executor.py\<close>

subsection \<open>Classification of script text\<close>

lemma py_split_nl_not_Nil: "py_split_nl s \<noteq> []"
  by (induction s) (auto split: list.splits)

lemma py_split_nl_single: "10 \<notin> set s \<Longrightarrow> py_split_nl s = [s]"
  by (induction s) auto

lemma py_strip_id:
  assumes "s \<noteq> []" and "\<not> py_isspace (hd s)" and "\<not> py_isspace (last s)"
  shows "py_strip s = s"
proof -
  have "dropWhile py_isspace s = s"
    using assms by (cases s) auto
  moreover have "dropWhile py_isspace (rev s) = rev s"
    using assms by (cases "rev s") (auto simp: hd_rev)
  ultimately show ?thesis
    by (simp add: py_strip_def)
qed

lemma first_line_single:
  "s \<noteq> [] \<Longrightarrow> \<not> py_isspace (hd s) \<Longrightarrow> \<not> py_isspace (last s) \<Longrightarrow> 10 \<notin> set s \<Longrightarrow>
     first_line s = s"
  by (simp add: first_line_def py_strip_id py_split_nl_single)

text \<open>Three one-line scripts.\<close>

lemma spaced_python_codes:
  "ascii ''#! /bin/python'' = [35, 33, 32, 47, 98, 105, 110, 47, 112, 121, 116, 104, 111, 110]"
  by (simp add: ascii_def)

lemma pwsh_codes: "ascii ''#!/bin/pwsh'' = [35, 33, 47, 98, 105, 110, 47, 112, 119, 115, 104]"
  by (simp add: ascii_def)

lemma python_codes:
  "ascii ''#!/bin/python'' = [35, 33, 47, 98, 105, 110, 47, 112, 121, 116, 104, 111, 110]"
  by (simp add: ascii_def)

lemma first_line_spaced_python: "first_line (ascii ''#! /bin/python'') = ascii ''#! /bin/python''"
  by (rule first_line_single) (simp_all add: spaced_python_codes py_isspace_def)

lemma first_line_pwsh: "first_line (ascii ''#!/bin/pwsh'') = ascii ''#!/bin/pwsh''"
  by (rule first_line_single) (simp_all add: pwsh_codes py_isspace_def)

lemma first_line_python: "first_line (ascii ''#!/bin/python'') = ascii ''#!/bin/python''"
  by (rule first_line_single) (simp_all add: python_codes py_isspace_def)

lemma detect_spaced_python:
  "detect_script_type_from_content (ascii ''#! /bin/python'') = ascii ''shell''"
proof -
  have a: "\<not> py_startswith (ascii ''#! /bin/python'') (ascii ''#!/'')"
    by (simp add: spaced_python_codes py_startswith_def ascii_def)
  have s: "py_strip (ascii ''#! /bin/python'') = ascii ''#! /bin/python''"
    by (rule py_strip_id) (simp_all add: spaced_python_codes py_isspace_def)
  have b: "\<not> py_startswith (ascii ''#! /bin/python'') (ascii ''import '')"
    by (simp add: spaced_python_codes py_startswith_def ascii_def)
  have c: "\<not> py_contains (ascii ''def '') (ascii ''#! /bin/python'')"
    by (simp add: spaced_python_codes py_contains_def ascii_def sublist_Cons_right)
  have d: "py_startswith (ascii ''#! /bin/python'') (ascii ''#!'')"
    by (simp add: spaced_python_codes py_startswith_def ascii_def)
  show ?thesis
    by (simp add: detect_script_type_from_content_def by_content_def first_line_spaced_python
        s a b c d)
qed

lemma detect_pwsh: "detect_script_type_from_content (ascii ''#!/bin/pwsh'') = ascii ''shell''"
proof -
  have a: "py_startswith (ascii ''#!/bin/pwsh'') (ascii ''#!/'')"
    by (simp add: pwsh_codes py_startswith_def ascii_def)
  have b: "\<not> py_contains (ascii ''python'') (ascii ''#!/bin/pwsh'')"
    by (simp add: pwsh_codes py_contains_def ascii_def sublist_Cons_right)
  have c: "py_contains (ascii ''sh'') (ascii ''#!/bin/pwsh'')"
    by (simp add: pwsh_codes py_contains_def ascii_def sublist_Cons_right)
  show ?thesis
    by (simp add: detect_script_type_from_content_def first_line_pwsh a b c py_split_nl_not_Nil)
qed

text \<open>
  The test for \<open>sh\<close> comes before the test for \<open>powershell\<close> and \<open>pwsh\<close>, and both
  words contain \<open>sh\<close>: the branch that returns powershell for a first line is never
  reached, and \<open>#!/bin/pwsh\<close> comes out as shell, where
  \<open>tests/test_script_executor.py\<close> expects powershell.
\<close>

lemma powershell_contains_sh:
  assumes "py_contains (ascii ''powershell'') l \<or> py_contains (ascii ''pwsh'') l"
  shows "py_contains (ascii ''sh'') l"
proof -
  have "sublist (ascii ''sh'') (ascii ''powershell'')"
    by (simp add: ascii_def sublist_Cons_right)
  moreover have "sublist (ascii ''sh'') (ascii ''pwsh'')"
    by (simp add: ascii_def sublist_Cons_right)
  ultimately show ?thesis
    using assms unfolding py_contains_def by (meson sublist_order.order.trans)
qed

text \<open>
  C4 as stated: a script whose first line begins with \<open>#!\<close> is classified by that line,
  \<open>python\<close> giving python. The code reads the first line as a directive only when it
  begins with \<open>#!/\<close>: \<open>#! /bin/python\<close> is classified as shell.
\<close>

theorem directive_without_slash_not_followed:
  "detect_script_type_from_content (ascii ''#! /bin/python'') = ascii ''shell'' \<and>
   ascii ''shell'' \<noteq> ascii ''python''"
  by (simp add: detect_spaced_python) (simp add: ascii_def)

text \<open>
  C4, amended: when the first line of the stripped text, stripped itself, begins with
  \<open>#!/\<close>, a line that contains \<open>python\<close> classifies the script as python, and a line
  with none of \<open>python\<close>, \<open>powershell\<close> and \<open>pwsh\<close> that contains \<open>bash\<close> or
  \<open>sh\<close> classifies it as shell; when the first line does not begin with \<open>#!/\<close> the
  script is classified by the tests on the whole text.
\<close>

theorem detect_script_type_by_directive:
  "(py_startswith (first_line c) (ascii ''#!/'') \<and> py_contains (ascii ''python'') (first_line c)
      \<longrightarrow> detect_script_type_from_content c = ascii ''python'') \<and>
   (py_startswith (first_line c) (ascii ''#!/'') \<and> \<not> py_contains (ascii ''python'') (first_line c)
      \<and> \<not> py_contains (ascii ''powershell'') (first_line c)
      \<and> \<not> py_contains (ascii ''pwsh'') (first_line c)
      \<and> (py_contains (ascii ''bash'') (first_line c) \<or> py_contains (ascii ''sh'') (first_line c))
      \<longrightarrow> detect_script_type_from_content c = ascii ''shell'') \<and>
   (\<not> py_startswith (first_line c) (ascii ''#!/'')
      \<longrightarrow> detect_script_type_from_content c = by_content c)"
  by (simp add: detect_script_type_from_content_def py_split_nl_not_Nil)

lemma bash_codes: "ascii ''#!/bin/bash'' = [35, 33, 47, 98, 105, 110, 47, 98, 97, 115, 104]"
  by (simp add: ascii_def)

lemma first_line_bash: "first_line (ascii ''#!/bin/bash'') = ascii ''#!/bin/bash''"
  by (rule first_line_single) (simp_all add: bash_codes py_isspace_def)

theorem detect_script_type_by_directive_witness:
  "detect_script_type_from_content (ascii ''#!/bin/python'') = ascii ''python'' \<and>
   detect_script_type_from_content (ascii ''#!/bin/bash'') = ascii ''shell'' \<and>
   detect_script_type_from_content (ascii ''#! /bin/python'') = by_content (ascii ''#! /bin/python'')"
proof -
  have p1: "py_startswith (first_line (ascii ''#!/bin/python'')) (ascii ''#!/'')"
    by (simp only: first_line_python) (simp add: python_codes py_startswith_def ascii_def)
  have p2: "py_contains (ascii ''python'') (first_line (ascii ''#!/bin/python''))"
    by (simp only: first_line_python) (simp add: python_codes py_contains_def ascii_def sublist_Cons_right)
  have s1: "py_startswith (first_line (ascii ''#!/bin/bash'')) (ascii ''#!/'')"
    by (simp only: first_line_bash) (simp add: bash_codes py_startswith_def ascii_def)
  have s2: "\<not> py_contains (ascii ''python'') (first_line (ascii ''#!/bin/bash''))"
    by (simp only: first_line_bash) (simp add: bash_codes py_contains_def ascii_def sublist_Cons_right)
  have s3: "\<not> py_contains (ascii ''powershell'') (first_line (ascii ''#!/bin/bash''))"
    by (simp only: first_line_bash) (simp add: bash_codes py_contains_def ascii_def sublist_Cons_right)
  have s4: "\<not> py_contains (ascii ''pwsh'') (first_line (ascii ''#!/bin/bash''))"
    by (simp only: first_line_bash) (simp add: bash_codes py_contains_def ascii_def sublist_Cons_right)
  have s5: "py_contains (ascii ''bash'') (first_line (ascii ''#!/bin/bash''))"
    by (simp only: first_line_bash) (simp add: bash_codes py_contains_def ascii_def sublist_Cons_right)
  have n1: "\<not> py_startswith (first_line (ascii ''#! /bin/python'')) (ascii ''#!/'')"
    by (simp only: first_line_spaced_python)
      (simp add: spaced_python_codes py_startswith_def ascii_def)
  from detect_script_type_by_directive [of "ascii ''#!/bin/python''"]
    detect_script_type_by_directive [of "ascii ''#!/bin/bash''"]
    detect_script_type_by_directive [of "ascii ''#! /bin/python''"]
    p1 p2 s1 s2 s3 s4 s5 n1
  show ?thesis by blast
qed

subsection \<open>Temporary script files\<close>

lemma popen_fails [simp]: "fails (snd (popen w sp)) = fails w"
  by (simp add: popen_def split: prod.splits)

lemma run_command_fails [simp]: "fails (snd (run_command ex w c wd env)) = fails w"
proof -
  obtain r w' where p: "popen w (Spawn (Shell c) wd
      (Some (case env of None \<Rightarrow> environ w | Some e \<Rightarrow> environ w ++ e))) = (r, w')"
    by (cases "popen w (Spawn (Shell c) wd
      (Some (case env of None \<Rightarrow> environ w | Some e \<Rightarrow> environ w ++ e)))")
  then have "fails w' = fails w"
    by (metis popen_fails snd_conv)
  with p show ?thesis
    by (simp add: run_command_def Let_def split: proc_outcome.splits)
qed

lemma execute_fails [simp]: "fails (snd (execute ex w c user wd env)) = fails w"
proof -
  let ?c = "case user of None \<Rightarrow> c | Some u \<Rightarrow> if u = [] then c else prepare_command_with_user ex c u"
  obtain r w' where p: "run_command ex w ?c wd env = (r, w')"
    by (cases "run_command ex w ?c wd env")
  then have "fails w' = fails w"
    by (metis run_command_fails snd_conv)
  with p show ?thesis
    by (simp add: execute_def Let_def split: sum.splits exec_error.splits prod.splits)
qed

lemma execute_by_type_fails [simp]:
  "fails (snd (execute_by_type se w t p user wd env)) = fails w"
  by (simp add: execute_by_type_def execute_python_script_def execute_shell_script_def
      execute_powershell_script_def execute_generic_script_def)

lemma write_text_file_fails [simp]: "fails (snd (write_text_file w p t)) = fails w"
  by (simp add: write_text_file_def Let_def split: option.splits)

lemma os_chmod_fails [simp]: "fails (snd (os_chmod w p m)) = fails w"
  by (simp add: os_chmod_def split: option.splits)

lemma create_temp_script_fails [simp]:
  "fails (snd (create_temp_script se w rnd c t)) = fails w"
proof -
  let ?p = "temp_path_of se rnd (script_ext t)"
  obtain r w1 where a: "write_text_file w ?p c = (r, w1)"
    by (cases "write_text_file w ?p c")
  then have f1: "fails w1 = fails w"
    by (metis write_text_file_fails snd_conv)
  obtain r2 w2 where b: "os_chmod w1 ?p 493 = (r2, w2)"
    by (cases "os_chmod w1 ?p 493")
  then have f2: "fails w2 = fails w1"
    by (metis os_chmod_fails snd_conv)
  from a b f1 f2 show ?thesis
    by (simp add: create_temp_script_def Let_def split: sum.splits)
qed

lemma create_temp_script_path:
  "create_temp_script se w rnd c t = (Inr p, w1) \<Longrightarrow> p = temp_path_of se rnd (script_ext t)"
  by (auto simp add: create_temp_script_def Let_def split: sum.splits prod.splits)

lemma cleanup_temp_file_removes:
  "fails w (Remove p) = None \<Longrightarrow> p \<notin> dom (files (cleanup_temp_file w p))"
  by (auto simp add: cleanup_temp_file_def os_path_exists_def os_remove_def)

lemma cleanup_temp_file_fails [simp]: "fails (cleanup_temp_file w p) = fails w"
  by (simp add: cleanup_temp_file_def os_remove_def split: option.splits)

lemma cleanup_temp_file_dom: "dom (files (cleanup_temp_file w p)) \<subseteq> dom (files w)"
  by (auto simp add: cleanup_temp_file_def os_remove_def split: option.splits if_splits)

lemma script_content_cleanup:
  "(create_temp_script se w rnd c (detect_script_type_from_content c) = (Inr p, w1)
      \<and> fails w (Remove p) = None
      \<longrightarrow> \<not> os_path_exists (snd (execute_script_content se w rnd c user wd env)) p)"
proof (intro impI, elim conjE)
  assume cr: "create_temp_script se w rnd c (detect_script_type_from_content c) = (Inr p, w1)"
    and rm: "fails w (Remove p) = None"
  let ?t = "detect_script_type_from_content c"
  obtain r w2 where ex: "execute_by_type se w1 ?t p user wd env = (r, w2)"
    by (cases "execute_by_type se w1 ?t p user wd env")
  have "fails w1 = fails w"
    using cr by (metis create_temp_script_fails snd_conv)
  moreover have "fails w2 = fails w1"
    using ex by (metis execute_by_type_fails snd_conv)
  ultimately have "fails w2 (Remove p) = None"
    using rm by simp
  then have "p \<notin> dom (files (cleanup_temp_file w2 p))"
    by (rule cleanup_temp_file_removes)
  moreover have "snd (execute_script_content se w rnd c user wd env) = cleanup_temp_file w2 p"
    using cr ex by (simp add: execute_script_content_def Let_def)
  ultimately show "\<not> os_path_exists (snd (execute_script_content se w rnd c user wd env)) p"
    by (simp add: os_path_exists_def)
qed


lemma execute_python_script_fails [simp]:
  "fails (snd (execute_python_script se w p user wd env)) = fails w"
  by (simp add: execute_python_script_def)

lemma dynamic_wrapper_cleanup:
  assumes p1: "p1 = temp_path_of se rnd (script_ext (detect_script_type_from_content c))"
    and cr: "create_temp_script se w rnd2
               (create_wrapper_script c p1
                  (wrapper_interpreter se (detect_script_type_from_content c)))
               (ascii ''python'') = (Inr p2, w1)"
    and rm1: "fails w (Remove p1) = None"
    and rm2: "fails w (Remove p2) = None"
  shows "\<not> os_path_exists (snd (execute_dynamic_wrapper se w rnd rnd2 c user wd env)) p1 \<and>
         \<not> os_path_exists (snd (execute_dynamic_wrapper se w rnd rnd2 c user wd env)) p2"
proof -
  obtain r w2 where ex: "execute_python_script se w1 p2 user wd env = (r, w2)"
    by (cases "execute_python_script se w1 p2 user wd env")
  have f1: "fails w1 = fails w"
    using cr by (metis create_temp_script_fails snd_conv)
  have f2: "fails w2 = fails w1"
    using ex by (metis execute_python_script_fails snd_conv)
  let ?w3 = "cleanup_temp_file w2 p2"
  have fin: "snd (execute_dynamic_wrapper se w rnd rnd2 c user wd env) = cleanup_temp_file ?w3 p1"
    using cr ex p1
    by (simp add: execute_dynamic_wrapper_def execute_python_script_content_def Let_def)
  have "fails ?w3 (Remove p1) = None"
    using f1 f2 rm1 by simp
  then have a: "p1 \<notin> dom (files (cleanup_temp_file ?w3 p1))"
    by (rule cleanup_temp_file_removes)
  have "fails w2 (Remove p2) = None"
    using f1 f2 rm2 by simp
  then have "p2 \<notin> dom (files ?w3)"
    by (rule cleanup_temp_file_removes)
  then have b: "p2 \<notin> dom (files (cleanup_temp_file ?w3 p1))"
    using cleanup_temp_file_dom [of ?w3 p1] by blast
  from a b fin show ?thesis
    by (simp add: os_path_exists_def)
qed

lemma create_temp_script_ok:
  assumes "p = temp_path_of se rnd (script_ext t)"
    and "fails w (Open p) = None" and "fails w (Write p) = None" and "fails w (Chmod p) = None"
    and "\<not> list_ex is_surrogate c"
  shows "create_temp_script se w rnd c t =
           (Inr p, w\<lparr>files := (files w)(p \<mapsto> \<lparr>content = c, mode = 493\<rparr>)\<rparr>)"
  using assms
  by (simp add: create_temp_script_def write_text_file_def os_chmod_def utf8_encode_def Let_def)

lemma ls_codes: "ascii ''ls'' = [108, 115]"
  by (simp add: ascii_def)

lemma detect_ls: "detect_script_type_from_content (ascii ''ls'') = ascii ''shell''"
proof -
  have f: "first_line (ascii ''ls'') = ascii ''ls''"
    by (rule first_line_single) (simp_all add: ls_codes py_isspace_def)
  have s: "py_strip (ascii ''ls'') = ascii ''ls''"
    by (rule py_strip_id) (simp_all add: ls_codes py_isspace_def)
  have a: "\<not> py_startswith (ascii ''ls'') (ascii ''#!/'')"
    by (simp add: ls_codes py_startswith_def ascii_def)
  have b: "\<not> py_startswith (ascii ''ls'') (ascii ''import '')"
    by (simp add: ls_codes py_startswith_def ascii_def)
  have c: "\<not> py_contains (ascii ''def '') (ascii ''ls'')"
    by (simp add: ls_codes py_contains_def ascii_def sublist_Cons_right)
  have d: "\<not> py_startswith (ascii ''ls'') (ascii ''#!'')"
    by (simp add: ls_codes py_startswith_def ascii_def)
  have e: "\<not> py_contains (ascii ''echo'') (ascii ''ls'')"
    by (simp add: ls_codes py_contains_def ascii_def sublist_Cons_right)
  have g: "\<not> py_contains (ascii ''Write-Host'') (ascii ''ls'')"
    by (simp add: ls_codes py_contains_def ascii_def sublist_Cons_right)
  have h: "\<not> py_contains (ascii ''Get-'') (ascii ''ls'')"
    by (simp add: ls_codes py_contains_def ascii_def sublist_Cons_right)
  show ?thesis
    by (simp add: detect_script_type_from_content_def by_content_def f s a b c d e g h)
qed

lemma temp_path_ls:
  "temp_path_of default_script_executor (ascii ''k3x9q2ab'') (script_ext (ascii ''shell''))
     = ascii ''/tmp/aiops/tmp_k3x9q2ab.sh''"
  by (simp add: temp_path_of_def script_ext_def os_path_join_def default_script_executor_def
      ascii_def)


lemma execute_files:
  "files (snd (execute ex w c user wd env)) =
     snd (child w (Spawn (Shell (case user of None \<Rightarrow> c
                                 | Some u \<Rightarrow> if u = [] then c else prepare_command_with_user ex c u))
                    wd (Some (case env of None \<Rightarrow> environ w | Some e \<Rightarrow> environ w ++ e)))
            (files w))"
  by (simp add: execute_def run_command_def popen_def Let_def
      split: prod.splits sum.splits exec_error.splits proc_outcome.splits option.splits)

lemma shell_not_python: "ascii ''shell'' \<noteq> ascii ''python''"
  by (simp add: ascii_def)

lemma ascii_no_surrogate: "\<not> list_ex is_surrogate (ascii s)"
proof -
  have "\<not> is_surrogate (of_char x)" for x :: char
    using nat_of_char_less_256 [of x] unfolding is_surrogate_def by arith
  then show ?thesis
    by (simp add: ascii_def list_ex_iff)
qed

text \<open>
  Removal is best effort: \<open>_cleanup_temp_file\<close> only logs a failing \<open>os.remove\<close>, and
  on a host that refuses the removal the file stays.
\<close>

lemma failed_remove_leaves_temp_script:
  "os_path_exists
     (snd (execute_script_content default_script_executor
             (remove_denied (quiet_host (\<lambda>sp. Exited [] [] 0)))
             (ascii ''k3x9q2ab'') (ascii ''ls'') None None None))
     (ascii ''/tmp/aiops/tmp_k3x9q2ab.sh'')"
proof -
  let ?w = "remove_denied (quiet_host (\<lambda>sp. Exited [] [] 0))"
  let ?p = "ascii ''/tmp/aiops/tmp_k3x9q2ab.sh''"
  let ?w1 = "?w\<lparr>files := (files ?w)(?p \<mapsto> \<lparr>content = ascii ''ls'', mode = 493\<rparr>)\<rparr>"
  have cr: "create_temp_script default_script_executor ?w (ascii ''k3x9q2ab'') (ascii ''ls'')
              (ascii ''shell'') = (Inr ?p, ?w1)"
    by (rule create_temp_script_ok)
      (simp_all add: temp_path_ls remove_denied_def quiet_host_def ascii_no_surrogate)
  obtain r w2 where ex: "execute_by_type default_script_executor ?w1 (ascii ''shell'') ?p
      None None None = (r, w2)"
    by (cases "execute_by_type default_script_executor ?w1 (ascii ''shell'') ?p None None None")
  have "files (snd (execute_by_type default_script_executor ?w1 (ascii ''shell'') ?p
      None None None)) = files ?w1"
    by (simp add: execute_by_type_def execute_shell_script_def execute_files
        remove_denied_def quiet_host_def shell_not_python)
  then have "files w2 = files ?w1"
    by (simp add: ex)
  then have there: "?p \<in> dom (files w2)"
    by simp
  have "fails w2 = fails ?w1"
    using ex by (metis execute_by_type_fails snd_conv)
  then have "fails w2 (Remove ?p) \<noteq> None"
    by (simp add: remove_denied_def)
  then have "cleanup_temp_file w2 ?p = w2"
    by (auto simp add: cleanup_temp_file_def os_remove_def split: option.splits)
  moreover have "snd (execute_script_content default_script_executor ?w (ascii ''k3x9q2ab'')
      (ascii ''ls'') None None None) = cleanup_temp_file w2 ?p"
    using cr ex by (simp add: execute_script_content_def detect_ls Let_def)
  ultimately show ?thesis
    using there by (simp add: os_path_exists_def)
qed


lemma create_wrapper_script_no_surrogate:
  "\<not> list_ex is_surrogate c \<Longrightarrow> \<not> list_ex is_surrogate p \<Longrightarrow> \<not> list_ex is_surrogate i \<Longrightarrow>
     \<not> list_ex is_surrogate (create_wrapper_script c p i)"
  by (simp add: create_wrapper_script_def ascii_no_surrogate is_surrogate_def)

lemma temp_path_wrapper:
  "temp_path_of default_script_executor (ascii ''p0o9i8u7'') (script_ext (ascii ''python''))
     = ascii ''/tmp/aiops/tmp_p0o9i8u7.py''"
  by (simp add: temp_path_of_def script_ext_def os_path_join_def default_script_executor_def
      ascii_def)

text \<open>
  When the file was created without an exception and its removal is not refused, it is
  gone after the call, whatever the child did; likewise both files of
  \<open>execute_dynamic_wrapper\<close>.
\<close>

lemma temp_files_removed_when_remove_works:
  "(create_temp_script se w rnd c (detect_script_type_from_content c) = (Inr p, w1)
      \<and> fails w (Remove p) = None
    \<longrightarrow> \<not> os_path_exists (snd (execute_script_content se w rnd c user wd env)) p) \<and>
   (p1 = temp_path_of se rnd (script_ext (detect_script_type_from_content c))
      \<and> create_temp_script se w rnd2
           (create_wrapper_script c p1 (wrapper_interpreter se (detect_script_type_from_content c)))
           (ascii ''python'') = (Inr p2, w2)
      \<and> fails w (Remove p1) = None \<and> fails w (Remove p2) = None
    \<longrightarrow> \<not> os_path_exists (snd (execute_dynamic_wrapper se w rnd rnd2 c user wd env)) p1
      \<and> \<not> os_path_exists (snd (execute_dynamic_wrapper se w rnd rnd2 c user wd env)) p2)"
  using script_content_cleanup dynamic_wrapper_cleanup by blast

lemma temp_files_removed_at_timeout:
  "\<not> os_path_exists
       (snd (execute_script_content default_script_executor (quiet_host (\<lambda>sp. TimedOut))
               (ascii ''k3x9q2ab'') (ascii ''ls'') None None None))
       (ascii ''/tmp/aiops/tmp_k3x9q2ab.sh'') \<and>
   \<not> os_path_exists
       (snd (execute_dynamic_wrapper default_script_executor (quiet_host (\<lambda>sp. TimedOut))
               (ascii ''k3x9q2ab'') (ascii ''p0o9i8u7'') (ascii ''ls'') None None None))
       (ascii ''/tmp/aiops/tmp_k3x9q2ab.sh'') \<and>
   \<not> os_path_exists
       (snd (execute_dynamic_wrapper default_script_executor (quiet_host (\<lambda>sp. TimedOut))
               (ascii ''k3x9q2ab'') (ascii ''p0o9i8u7'') (ascii ''ls'') None None None))
       (ascii ''/tmp/aiops/tmp_p0o9i8u7.py'')"
proof -
  let ?w = "quiet_host (\<lambda>sp. TimedOut)"
  let ?se = default_script_executor
  let ?p1 = "ascii ''/tmp/aiops/tmp_k3x9q2ab.sh''"
  let ?p2 = "ascii ''/tmp/aiops/tmp_p0o9i8u7.py''"
  let ?wrapper = "create_wrapper_script (ascii ''ls'') ?p1
                    (wrapper_interpreter ?se (detect_script_type_from_content (ascii ''ls'')))"
  have quiet: "fails ?w = (\<lambda>c. None)"
    by (simp add: quiet_host_def)
  have path1: "?p1 = temp_path_of ?se (ascii ''k3x9q2ab'')
                       (script_ext (detect_script_type_from_content (ascii ''ls'')))"
    by (simp only: detect_ls temp_path_ls)
  have cr1: "create_temp_script ?se ?w (ascii ''k3x9q2ab'') (ascii ''ls'')
               (detect_script_type_from_content (ascii ''ls'')) =
             (Inr ?p1, ?w\<lparr>files := (files ?w)(?p1 \<mapsto> \<lparr>content = ascii ''ls'', mode = 493\<rparr>)\<rparr>)"
    by (rule create_temp_script_ok) (simp_all add: path1 [symmetric] quiet ascii_no_surrogate)
  have cr2: "create_temp_script ?se ?w (ascii ''p0o9i8u7'') ?wrapper (ascii ''python'') =
             (Inr ?p2, ?w\<lparr>files := (files ?w)(?p2 \<mapsto> \<lparr>content = ?wrapper, mode = 493\<rparr>)\<rparr>)"
    by (rule create_temp_script_ok)
      (simp_all add: temp_path_wrapper quiet ascii_no_surrogate create_wrapper_script_no_surrogate
        wrapper_interpreter_def)
  from temp_files_removed_when_remove_works [of ?se ?w "ascii ''k3x9q2ab''" "ascii ''ls''" ?p1
      "?w\<lparr>files := (files ?w)(?p1 \<mapsto> \<lparr>content = ascii ''ls'', mode = 493\<rparr>)\<rparr>"
      None None None ?p1 "ascii ''p0o9i8u7''" ?p2
      "?w\<lparr>files := (files ?w)(?p2 \<mapsto> \<lparr>content = ?wrapper, mode = 493\<rparr>)\<rparr>"]
    cr1 cr2 path1 quiet
  show ?thesis by simp
qed

lemma detect_lone_surrogate: "detect_script_type_from_content [0xDC80] = ascii ''shell''"
proof -
  have f: "first_line [0xDC80] = [0xDC80]"
    by (rule first_line_single) (simp_all add: py_isspace_def)
  have s: "py_strip [0xDC80] = [0xDC80]"
    by (rule py_strip_id) (simp_all add: py_isspace_def)
  have a: "\<not> py_startswith [0xDC80] (ascii ''#!/'')"
    by (simp add: py_startswith_def ascii_def)
  have b: "\<not> py_startswith [0xDC80] (ascii ''import '')"
    by (simp add: py_startswith_def ascii_def)
  have c: "\<not> py_contains (ascii ''def '') [0xDC80]"
    by (simp add: py_contains_def ascii_def sublist_Cons_right)
  have d: "\<not> py_startswith [0xDC80] (ascii ''#!'')"
    by (simp add: py_startswith_def ascii_def)
  have e: "\<not> py_contains (ascii ''echo'') [0xDC80]"
    by (simp add: py_contains_def ascii_def sublist_Cons_right)
  have g: "\<not> py_contains (ascii ''Write-Host'') [0xDC80]"
    by (simp add: py_contains_def ascii_def sublist_Cons_right)
  have h: "\<not> py_contains (ascii ''Get-'') [0xDC80]"
    by (simp add: py_contains_def ascii_def sublist_Cons_right)
  show ?thesis
    by (simp add: detect_script_type_from_content_def by_content_def f s a b c d e g h)
qed

lemma lone_surrogate_message:
  "encode_error_message [0xDC80] =
     [39] @ ascii ''utf-8'' @ [39] @ ascii '' codec can'' @ [39] @ ascii ''t encode character ''
     @ [39, 92] @ ascii ''udc80'' @ [39] @ ascii '' in position 0: surrogates not allowed''"
  by (simp add: encode_error_message_def is_surrogate_def hex_digit_def Let_def ascii_def)

text \<open>
  C3. After \<open>execute_script_content\<close> returns, on every path, also when an internal
  exception occurred, the temporary file it created should be gone. The clean-up is not
  in a \<open>finally\<close>: when \<open>_create_temp_script\<close> raises after \<open>open\<close> has created the
  file, the \<open>except\<close> branch returns the failure and nothing removes the file. So for a
  script text that is one lone surrogate, which UTF-8 cannot encode: the write raises
  \<open>UnicodeEncodeError\<close>, no child is started, and the empty file is left behind.
\<close>

theorem encode_error_leaves_temp_script:
  "execute_script_content default_script_executor (quiet_host (\<lambda>sp. Exited [] [] 0))
     (ascii ''k3x9q2ab'') [0xDC80] None None None =
   (\<lparr>success = False, output_text = [], error = encode_error_message [0xDC80], return_code = - 1\<rparr>,
    (quiet_host (\<lambda>sp. Exited [] [] 0))
      \<lparr>files := [ascii ''/tmp/aiops/tmp_k3x9q2ab.sh'' \<mapsto> \<lparr>content = [], mode = 420\<rparr>]\<rparr>) \<and>
   os_path_exists
     (snd (execute_script_content default_script_executor (quiet_host (\<lambda>sp. Exited [] [] 0))
             (ascii ''k3x9q2ab'') [0xDC80] None None None))
     (ascii ''/tmp/aiops/tmp_k3x9q2ab.sh'')"
proof -
  let ?w = "quiet_host (\<lambda>sp. Exited [] [] 0)"
  let ?p = "ascii ''/tmp/aiops/tmp_k3x9q2ab.sh''"
  have enc: "utf8_encode [0xDC80] = None"
    by (simp add: utf8_encode_def is_surrogate_def)
  have "create_temp_script default_script_executor ?w (ascii ''k3x9q2ab'') [0xDC80] (ascii ''shell'')
          = (Inl (encode_error_message [0xDC80]),
             ?w\<lparr>files := [?p \<mapsto> \<lparr>content = [], mode = 420\<rparr>]\<rparr>)"
    by (simp add: create_temp_script_def write_text_file_def temp_path_ls enc quiet_host_def)
  then have "execute_script_content default_script_executor ?w (ascii ''k3x9q2ab'') [0xDC80]
      None None None =
    (failure (encode_error_message [0xDC80]), ?w\<lparr>files := [?p \<mapsto> \<lparr>content = [], mode = 420\<rparr>]\<rparr>)"
    by (simp add: execute_script_content_def detect_lone_surrogate)
  then show ?thesis
    by (simp add: failure_def os_path_exists_def)
qed

section \<open>Properties of security.py\<close>

subsection \<open>UTF-8\<close>









subsection \<open>The ideal libraries keep the contracts\<close>

lemma ideal_jwt_contract: "pyjwt_contract ideal_jwt"
  by (auto simp add: pyjwt_contract_def ideal_jwt_def)

lemma byte_div16: "(of_char c :: nat) div 16 < 16"
  using nat_of_char_less_256 [of c] by arith

lemma hex_pair_codes:
  "map of_char (hex_pair c) = [65 + (of_char c :: nat) div 16, 65 + (of_char c :: nat) mod 16]"
proof -
  show ?thesis
    using byte_div16 [of c] by (simp add: hex_pair_def)
qed






lemma init_fernet_test_manager:
  "init_fernet ideal_fernet (aes_key test_manager) = Inr (fernet test_manager)"
proof -
  have "\<not> list_ex is_surrogate (aes_key test_manager)"
    by (simp add: test_manager_def ascii_def list_ex_iff is_surrogate_def)
  then have "\<exists>raw. utf8_encode (aes_key test_manager) = Some raw"
    by (simp add: utf8_encode_def)
  moreover have "length (aes_key test_manager) \<noteq> 32"
    by (simp add: test_manager_def ascii_def)
  ultimately show ?thesis
    by (auto simp add: init_fernet_def ideal_fernet_def Let_def test_manager_def)
qed

subsection \<open>Tokens\<close>

lemma issued_distinct:
  "distinct (map fst (AList.update (ascii ''iat'') v2 (AList.update (ascii ''exp'') v1
     [(ascii ''user_id'', a), (ascii ''permissions'', b), (ascii ''api_key'', c),
      (ascii ''type'', d)])))"
  by (simp add: distinct_update ascii_def)

lemma issued_lookup:
  fixes t2 e :: int and u a :: pystr and ps :: "json list" and al :: payload
  defines "al \<equiv> AList.update (ascii ''iat'') (JInt t2) (AList.update (ascii ''exp'') (JInt e)
     [(ascii ''user_id'', JStr u), (ascii ''permissions'', JList ps), (ascii ''api_key'', JStr a),
      (ascii ''type'', JStr (ascii ''api_key''))])"
  shows "map_of al (ascii ''exp'') = Some (JInt e) \<and>
         map_of al (ascii ''iat'') = Some (JInt t2) \<and>
         map_of al (ascii ''user_id'') = Some (JStr u) \<and>
         map_of al (ascii ''permissions'') = Some (JList ps) \<and>
         map_of al (ascii ''nbf'') = None \<and> map_of al (ascii ''aud'') = None \<and>
         map_of al (ascii ''iss'') = None \<and> map_of al (ascii ''sub'') = None \<and>
         map_of al (ascii ''jti'') = None"
  unfolding al_def by (simp add: update_conv' ascii_def)

lemma issued_token_verification:
  assumes lib: "pyjwt_contract lib"
    and iat: "now2 \<le> now"
  shows "(now < now1 + jwt_expire_hours sm * 3600 \<longrightarrow>
            (\<exists>p. verify_jwt_token lib sm now
                    (snd (generate_api_key lib sm now1 now2 random32 user_id permissions)) = Some p
                \<and> map_of p (ascii ''user_id'') = Some (JStr user_id)
                \<and> map_of p (ascii ''permissions'') = Some (JList permissions))) \<and>
         (now1 + jwt_expire_hours sm * 3600 < now \<longrightarrow>
            verify_jwt_token lib sm now
              (snd (generate_api_key lib sm now1 now2 random32 user_id permissions)) = None)"
proof -
  define e where "e = now1 + jwt_expire_hours sm * 3600"
  define p where "p = AList.update (ascii ''iat'') (JInt now2)
              (AList.update (ascii ''exp'') (JInt e)
                 [(ascii ''user_id'', JStr user_id), (ascii ''permissions'', JList permissions),
                  (ascii ''api_key'', JStr (map of_char (urlsafe_b64encode random32))),
                  (ascii ''type'', JStr (ascii ''api_key''))])"
  define tok where "tok = snd (generate_api_key lib sm now1 now2 random32 user_id permissions)"
  have tok: "tok = jwt_encode lib p (jwt_secret sm)"
    by (simp add: tok_def p_def e_def generate_api_key_def generate_jwt_token_def Let_def)
  have d: "distinct (map fst p)"
    unfolding p_def by (rule issued_distinct)
  note l = issued_lookup [of now2 e user_id permissions
      "map of_char (urlsafe_b64encode random32)", folded p_def]
  have pre: "\<forall>v. map_of p (ascii ''iat'') = Some v \<longrightarrow> (\<exists>i. v = JInt i \<and> i \<le> now)"
      "list_all (\<lambda>c. map_of p c = None)
         [ascii ''nbf'', ascii ''aud'', ascii ''iss'', ascii ''sub'', ascii ''jti'']"
    using iat l by simp_all
  from lib [unfolded pyjwt_contract_def, rule_format, of p e now "jwt_secret sm"] d l pre
  have dec: "now < e \<Longrightarrow> jwt_decode lib tok (jwt_secret sm) now = Inr p"
    and exp: "e < now \<Longrightarrow> jwt_decode lib tok (jwt_secret sm) now = Inl ExpiredSignatureError"
    unfolding tok by blast+
  have "now < e \<longrightarrow> (\<exists>q. verify_jwt_token lib sm now tok = Some q
          \<and> map_of q (ascii ''user_id'') = Some (JStr user_id)
          \<and> map_of q (ascii ''permissions'') = Some (JList permissions))"
    using dec l by (simp add: verify_jwt_token_def)
  moreover have "e < now \<longrightarrow> verify_jwt_token lib sm now tok = None"
    using exp by (simp add: verify_jwt_token_def)
  ultimately show ?thesis
    unfolding tok_def e_def by blast
qed

text \<open>
  C6 as stated: for every token the check with no required permission returns true. A
  token that does not verify is refused before the permissions are looked at, also when
  none is required: so for a token signed with another secret.
\<close>

theorem forged_token_has_no_permissions:
  "validate_token_permissions ideal_jwt test_manager 100
     (jwt_encode ideal_jwt [(ascii ''permissions'', JList [])] (ascii ''other-secret'')) [] = False"
  by (simp add: validate_token_permissions_def verify_jwt_token_def ideal_jwt_def
      test_manager_def ascii_def)

text \<open>
  C6, amended: for a token that does not verify the check returns false for every list of
  required permissions; for a token that verifies to a payload that is not empty, the
  check with no required permission returns true, and, when the payload's permissions are
  a list, the check with one required permission \<open>c\<close> returns true exactly when \<open>c\<close> is
  in that list.
\<close>

theorem validate_token_permissions_of_verified:
  "(verify_jwt_token lib sm now tok = None \<longrightarrow>
      validate_token_permissions lib sm now tok required = False) \<and>
   (verify_jwt_token lib sm now tok = Some p \<and> p \<noteq> [] \<longrightarrow>
      validate_token_permissions lib sm now tok [] = True) \<and>
   (verify_jwt_token lib sm now tok = Some p \<and> p \<noteq> []
      \<and> map_of p (ascii ''permissions'') = Some (JList caps) \<longrightarrow>
      validate_token_permissions lib sm now tok [c] = (JStr c \<in> set caps))"
  by (auto simp add: validate_token_permissions_def split: bool.splits)

theorem validate_token_permissions_of_verified_witness:
  "validate_token_permissions ideal_jwt test_manager 7200
     (snd (generate_api_key ideal_jwt test_manager 0 0 (replicate 32 (CHR ''r''))
             (ascii ''alice'') [JStr (ascii ''exec:command'')])) [ascii ''exec:command''] = False \<and>
   validate_token_permissions ideal_jwt test_manager 100
     (snd (generate_api_key ideal_jwt test_manager 0 0 (replicate 32 (CHR ''r''))
             (ascii ''alice'') [JStr (ascii ''exec:command'')])) [] = True \<and>
   validate_token_permissions ideal_jwt test_manager 100
     (snd (generate_api_key ideal_jwt test_manager 0 0 (replicate 32 (CHR ''r''))
             (ascii ''alice'') [JStr (ascii ''exec:command'')])) [ascii ''exec:command''] = True \<and>
   validate_token_permissions ideal_jwt test_manager 100
     (snd (generate_api_key ideal_jwt test_manager 0 0 (replicate 32 (CHR ''r''))
             (ascii ''alice'') [JStr (ascii ''exec:command'')])) [ascii ''admin:all''] = False"
proof -
  let ?tok = "snd (generate_api_key ideal_jwt test_manager 0 0 (replicate 32 (CHR ''r''))
                     (ascii ''alice'') [JStr (ascii ''exec:command'')])"
  have h: "jwt_expire_hours test_manager = 1"
    by (simp add: test_manager_def)
  from issued_token_verification [OF ideal_jwt_contract, of 0 100 0 test_manager
      "replicate 32 (CHR ''r'')" "ascii ''alice''" "[JStr (ascii ''exec:command'')]"] h
  obtain p where p: "verify_jwt_token ideal_jwt test_manager 100 ?tok = Some p"
      "map_of p (ascii ''user_id'') = Some (JStr (ascii ''alice''))"
      "map_of p (ascii ''permissions'') = Some (JList [JStr (ascii ''exec:command'')])"
    by auto
  from p(2) have ne: "p \<noteq> []"
    by auto
  from issued_token_verification [OF ideal_jwt_contract, of 0 7200 0 test_manager
      "replicate 32 (CHR ''r'')" "ascii ''alice''" "[JStr (ascii ''exec:command'')]"] h
  have late: "verify_jwt_token ideal_jwt test_manager 7200 ?tok = None"
    by simp
  have d: "ascii ''admin:all'' \<noteq> ascii ''exec:command''"
    by (simp add: ascii_def)
  from validate_token_permissions_of_verified [of ideal_jwt test_manager 7200 ?tok
      "[ascii ''exec:command'']" p "[]" "ascii ''exec:command''"]
    validate_token_permissions_of_verified [of ideal_jwt test_manager 100 ?tok "[]" p
      "[JStr (ascii ''exec:command'')]" "ascii ''exec:command''"]
    validate_token_permissions_of_verified [of ideal_jwt test_manager 100 ?tok "[]" p
      "[JStr (ascii ''exec:command'')]" "ascii ''admin:all''"]
    p ne late d
  show ?thesis by simp
qed

text \<open>
  C7. Verifying a token of \<open>generate_api_key\<close> before its expiry returns a payload
  with the subject and the permissions it was issued for; verifying it after its expiry
  returns nothing. (The library is PyJWT as described by \<open>pyjwt_contract\<close>; the
  token was not issued in the future of the verification.)
\<close>

theorem issued_token_round_trip:
  "pyjwt_contract lib \<and> now2 \<le> now \<longrightarrow>
     (now < now1 + jwt_expire_hours sm * 3600 \<longrightarrow>
        (\<exists>p. verify_jwt_token lib sm now
                (snd (generate_api_key lib sm now1 now2 random32 user_id permissions)) = Some p
            \<and> map_of p (ascii ''user_id'') = Some (JStr user_id)
            \<and> map_of p (ascii ''permissions'') = Some (JList permissions))) \<and>
     (now1 + jwt_expire_hours sm * 3600 < now \<longrightarrow>
        verify_jwt_token lib sm now
          (snd (generate_api_key lib sm now1 now2 random32 user_id permissions)) = None)"
  using issued_token_verification by blast

theorem issued_token_round_trip_witness:
  "(\<exists>p. verify_jwt_token ideal_jwt test_manager 100
          (snd (generate_api_key ideal_jwt test_manager 0 0 (replicate 32 (CHR ''r''))
                  (ascii ''alice'') [JStr (ascii ''exec:command'')])) = Some p
      \<and> map_of p (ascii ''user_id'') = Some (JStr (ascii ''alice''))
      \<and> map_of p (ascii ''permissions'') = Some (JList [JStr (ascii ''exec:command'')])) \<and>
   verify_jwt_token ideal_jwt test_manager 7200
     (snd (generate_api_key ideal_jwt test_manager 0 0 (replicate 32 (CHR ''r''))
             (ascii ''alice'') [JStr (ascii ''exec:command'')])) = None"
proof -
  have h: "jwt_expire_hours test_manager = 1"
    by (simp add: test_manager_def)
  from issued_token_round_trip [of ideal_jwt 0 100 0 test_manager "replicate 32 (CHR ''r'')"
      "ascii ''alice''" "[JStr (ascii ''exec:command'')]"]
    issued_token_round_trip [of ideal_jwt 0 7200 0 test_manager "replicate 32 (CHR ''r'')"
      "ascii ''alice''" "[JStr (ascii ''exec:command'')]"]
    ideal_jwt_contract h
  show ?thesis by simp
qed

subsection \<open>Encryption\<close>







end
